theory Spec2Isabelle
  imports Main "HOL-Library.Sublist"
begin

section \<open>JavaScript values as the server sees them\<close>

text \<open>
  The repository holds three revisions of \<^verbatim>\<open>server.js\<close>: the one in
  \<^verbatim>\<open>src/unnamed/part_001\<close> (suffix \<open>_A\<close> below), the first file of
  \<^verbatim>\<open>src/unnamed/part_002\<close> (suffix \<open>_B\<close>) and the second file of
  \<^verbatim>\<open>src/unnamed/part_002\<close> (suffix \<open>_C\<close>). Code that is the same in several
  revisions up to log messages is embedded once and shared.

  A value that \<^verbatim>\<open>JSON.parse\<close> returns, or that a property read yields, is a \<open>json\<close>.
  A number is kept as \<open>JNum r\<close>, where \<open>r\<close> is its rendering by JavaScript's number to
  string conversion (\<^verbatim>\<open>11\<close>, \<^verbatim>\<open>499.5\<close>, \<^verbatim>\<open>1e+21\<close>); the rendering determines the number,
  but for the sign of zero, which no operation of the server observes. Strings are byte
  lists.
\<close>

datatype json =
    JUndefined
  | JNull
  | JBool bool
  | JNum string
  | JStr string
  | JArr "json list"
  | JObj "(string \<times> json) list"

datatype js_error =
    Error string        \<comment> \<open>\<^verbatim>\<open>new Error(message)\<close>\<close>
  | TypeError           \<comment> \<open>property of null/undefined, call of a non-function, non-iterable\<close>
  | RangeError          \<comment> \<open>\<^verbatim>\<open>crypto.timingSafeEqual\<close> on buffers of different length\<close>
  | SyntaxError         \<comment> \<open>\<^verbatim>\<open>JSON.parse\<close> on a text that is not JSON\<close>
  | FetchError string   \<comment> \<open>\<^verbatim>\<open>fetch\<close> or \<^verbatim>\<open>res.text()\<close> rejected\<close>

text \<open>Truthiness, as \<^verbatim>\<open>if (x)\<close>, \<^verbatim>\<open>x || y\<close> and \<^verbatim>\<open>x && y\<close> test it.\<close>

fun truthy :: "json \<Rightarrow> bool" where
  "truthy JUndefined = False"
| "truthy JNull = False"
| "truthy (JBool b) = b"
| "truthy (JNum r) = (r \<noteq> ''0'' \<and> r \<noteq> ''NaN'')"
| "truthy (JStr s) = (s \<noteq> [])"
| "truthy (JArr _) = True"
| "truthy (JObj _) = True"

definition js_or :: "json \<Rightarrow> json \<Rightarrow> json" where
  "js_or a b = (if truthy a then a else b)"

text \<open>
  A read \<^verbatim>\<open>x.name\<close> of one of the property names the server uses (none of them is a
  built-in property of strings, numbers, booleans or arrays): it throws on \<^verbatim>\<open>null\<close> and
  \<^verbatim>\<open>undefined\<close>, looks the key up in an object and is \<^verbatim>\<open>undefined\<close> elsewhere.
\<close>

fun get :: "json \<Rightarrow> string \<Rightarrow> js_error + json" where
  "get JUndefined k = Inl TypeError"
| "get JNull k = Inl TypeError"
| "get (JObj kvs) k = Inr (case map_of kvs k of None \<Rightarrow> JUndefined | Some v \<Rightarrow> v)"
| "get _ k = Inr JUndefined"

text \<open>The read \<^verbatim>\<open>x[0]\<close>.\<close>

fun at0 :: "json \<Rightarrow> js_error + json" where
  "at0 JUndefined = Inl TypeError"
| "at0 JNull = Inl TypeError"
| "at0 (JArr xs) = Inr (case xs of [] \<Rightarrow> JUndefined | x # _ \<Rightarrow> x)"
| "at0 (JStr s) = Inr (case s of [] \<Rightarrow> JUndefined | c # _ \<Rightarrow> JStr [c])"
| "at0 (JObj kvs) = Inr (case map_of kvs ''0'' of None \<Rightarrow> JUndefined | Some v \<Rightarrow> v)"
| "at0 _ = Inr JUndefined"

text \<open>
  \<^verbatim>\<open>for (const x of v)\<close>: an array yields its elements, a string its characters, any
  other value is not iterable.
\<close>

fun iterate :: "json \<Rightarrow> js_error + json list" where
  "iterate (JArr xs) = Inr xs"
| "iterate (JStr s) = Inr (map (\<lambda>c. JStr [c]) s)"
| "iterate _ = Inl TypeError"

text \<open>
  \<^verbatim>\<open>sku.startsWith(p)\<close> on a truthy \<open>sku\<close>: the string's own function on a string; on any other
  value \<^verbatim>\<open>startsWith\<close> is not a function and the call throws.
\<close>

fun startsWith :: "json \<Rightarrow> string \<Rightarrow> js_error + bool" where
  "startsWith (JStr s) p = Inr (prefix p s)"
| "startsWith _ p = Inl TypeError"

subsection \<open>Timestamps and values inside template literals\<close>

definition digit_char :: "nat \<Rightarrow> char" where
  "digit_char d = ''0123456789'' ! d"

function show_nat :: "nat \<Rightarrow> string" where
  "show_nat n = (if n < 10 then [digit_char n] else show_nat (n div 10) @ [digit_char (n mod 10)])"
  by pat_completeness auto
termination
  by (relation "measure id") auto

declare show_nat.simps [simp del]

definition bindE :: "js_error + 'a \<Rightarrow> ('a \<Rightarrow> js_error + 'b) \<Rightarrow> js_error + 'b" where
  "bindE m f = (case m of Inl e \<Rightarrow> Inl e | Inr v \<Rightarrow> f v)"

text \<open>
  \<^verbatim>\<open>Array.prototype.join\<close> with a comma, over the conversions of the elements; the
  first conversion that throws ends it.
\<close>

fun join_comma :: "(js_error + string) list \<Rightarrow> js_error + string" where
  "join_comma [] = Inr []"
| "join_comma [r] = r"
| "join_comma (r # t # rs) =
     bindE r (\<lambda>s. bindE (join_comma (t # rs)) (\<lambda>u. Inr (s @ CHR '','' # u)))"

text \<open>
  \<^verbatim>\<open>`${v}`\<close> and \<^verbatim>\<open>String(v)\<close>: the string conversion of a value. An object is
  \<^verbatim>\<open>[object Object]\<close> through \<^verbatim>\<open>Object.prototype.toString\<close>, unless it has a property
  \<^verbatim>\<open>toString\<close> of its own: that one is a JSON value and no function, \<^verbatim>\<open>valueOf\<close> then
  yields no primitive either, and the conversion throws a \<^verbatim>\<open>TypeError\<close>. An array is
  the join of its elements, with \<^verbatim>\<open>null\<close> and \<^verbatim>\<open>undefined\<close> as the empty string.
\<close>

fun to_str :: "json \<Rightarrow> js_error + string" where
  "to_str JUndefined = Inr ''undefined''"
| "to_str JNull = Inr ''null''"
| "to_str (JBool b) = Inr (if b then ''true'' else ''false'')"
| "to_str (JNum r) = Inr r"
| "to_str (JStr s) = Inr s"
| "to_str (JArr xs) =
     join_comma (map (\<lambda>x. if x = JNull \<or> x = JUndefined then Inr [] else to_str x) xs)"
| "to_str (JObj kvs) =
     (if map_of kvs ''toString'' = None then Inr ''[object Object]'' else Inl TypeError)"

section \<open>The upstream API and the process environment\<close>

datatype http_method = GET | POST | DELETE

text \<open>
  What \<^verbatim>\<open>fetch(url, opts)\<close> is called with. The body is kept as the value that
  \<^verbatim>\<open>JSON.stringify\<close> serialises (\<open>None\<close>: no \<^verbatim>\<open>opts.body\<close>).
\<close>

record request =
  rq_url :: string
  rq_method :: http_method
  rq_token :: string
  rq_body :: "json option"

record response =
  rs_status :: nat
  rs_statusText :: string
  rs_text :: string

datatype fetch_result = Resolved response | Rejected string

text \<open>\<^verbatim>\<open>res.ok\<close> of node-fetch: the status is in the range 200 to 299.\<close>

definition rs_ok :: "response \<Rightarrow> bool" where
  "rs_ok r = (200 \<le> rs_status r \<and> rs_status r < 300)"

text \<open>
  Everything a request handler reads from outside its own code: the configuration
  (after the \<^verbatim>\<open>|| default\<close> of the module header), the upstream store behind
  \<^verbatim>\<open>fetch\<close> (a transition on an abstract world \<open>'w\<close>, so that a second delete of
  the same product may answer differently from the first), the clock, and the library
  functions \<^verbatim>\<open>JSON.parse\<close>, \<^verbatim>\<open>JSON.stringify\<close> and the base64 HMAC-SHA256 digest.
\<close>

record 'w env =
  SHOP :: string
  TOKEN :: string
  API_VERSION :: string
  TEMP_SKU_PREFIX :: string
  ADMIN_KEY :: string
  SHOPIFY_WEBHOOK_SECRET :: string
  fetch :: "request \<Rightarrow> 'w \<Rightarrow> fetch_result \<times> 'w"
  Date_now :: "'w \<Rightarrow> nat"
  JSON_parse :: "string \<Rightarrow> json option"
  JSON_stringify :: "json \<Rightarrow> string"
  hmac_sha256_base64 :: "string \<Rightarrow> string \<Rightarrow> string"

text \<open>
  A handler runs on the world and the list of upstream calls made so far; every
  \<^verbatim>\<open>fetch\<close> appends its request to that list.
\<close>

type_synonym 'w st = "'w \<times> request list"

type_synonym ('w, 'a) io = "'w st \<Rightarrow> (js_error + 'a) \<times> 'w st"

definition calls :: "'w st \<Rightarrow> request list" where
  "calls st = snd st"

definition mk_request :: "'w env \<Rightarrow> string \<Rightarrow> http_method \<Rightarrow> json \<Rightarrow> request" where
  "mk_request E path m b =
     \<lparr>rq_url = ''https://'' @ SHOP E @ ''/admin/api/'' @ API_VERSION E @ ''/'' @ path,
      rq_method = m,
      rq_token = TOKEN E,
      rq_body = (if truthy b then Some b else None)\<rparr>"

text \<open>\<^verbatim>\<open>await fetch(url, opts)\<close> followed by \<^verbatim>\<open>await res.text()\<close>.\<close>

definition do_fetch :: "'w env \<Rightarrow> request \<Rightarrow> 'w st \<Rightarrow> fetch_result \<times> 'w st" where
  "do_fetch E rq st =
     (case fetch E rq (fst st) of (r, w') \<Rightarrow> (r, (w', snd st @ [rq])))"

subsection \<open>\<^verbatim>\<open>shopifyRequest\<close>, three revisions\<close>

text \<open>
  \<^verbatim>\<open>part_001\<close>, lines 25-48: \<^verbatim>\<open>if (!res.ok) throw new Error(`Shopify API error
  (${status}): ${text}`)\<close>, then \<^verbatim>\<open>JSON.parse(text)\<close> or
  \<^verbatim>\<open>'Shopify parse error: ' + text\<close>.
\<close>

definition shopifyRequest_A :: "'w env \<Rightarrow> string \<Rightarrow> http_method \<Rightarrow> json \<Rightarrow> ('w, json) io" where
  "shopifyRequest_A E path m b st =
     (case do_fetch E (mk_request E path m b) st of
        (Rejected msg, st') \<Rightarrow> (Inl (FetchError msg), st')
      | (Resolved res, st') \<Rightarrow>
          if \<not> rs_ok res then
            (Inl (Error (''Shopify API error ('' @ show_nat (rs_status res) @ ''): '' @ rs_text res)), st')
          else
            (case JSON_parse E (rs_text res) of
               Some j \<Rightarrow> (Inr j, st')
             | None \<Rightarrow> (Inl (Error (''Shopify parse error: '' @ rs_text res)), st')))"

text \<open>
  \<^verbatim>\<open>part_002\<close>, lines 34-70: as above, with the status text in the message.
\<close>

definition shopifyRequest_B :: "'w env \<Rightarrow> string \<Rightarrow> http_method \<Rightarrow> json \<Rightarrow> ('w, json) io" where
  "shopifyRequest_B E path m b st =
     (case do_fetch E (mk_request E path m b) st of
        (Rejected msg, st') \<Rightarrow> (Inl (FetchError msg), st')
      | (Resolved res, st') \<Rightarrow>
          if \<not> rs_ok res then
            (Inl (Error (''Shopify API error ('' @ show_nat (rs_status res) @ '' '' @ rs_statusText res
                          @ ''): '' @ rs_text res)), st')
          else
            (case JSON_parse E (rs_text res) of
               Some j \<Rightarrow> (Inr j, st')
             | None \<Rightarrow> (Inl (Error (''Shopify JSON parse error: '' @ rs_text res)), st')))"

text \<open>
  \<^verbatim>\<open>part_002\<close>, lines 280-291: the text is parsed whatever the status is.
\<close>

definition shopifyRequest_C :: "'w env \<Rightarrow> string \<Rightarrow> http_method \<Rightarrow> json \<Rightarrow> ('w, json) io" where
  "shopifyRequest_C E path m b st =
     (case do_fetch E (mk_request E path m b) st of
        (Rejected msg, st') \<Rightarrow> (Inl (FetchError msg), st')
      | (Resolved res, st') \<Rightarrow>
          (case JSON_parse E (rs_text res) of
             Some j \<Rightarrow> (Inr j, st')
           | None \<Rightarrow> (Inl (Error (''Shopify JSON parse error: '' @ rs_text res)), st')))"

text \<open>
  \<^verbatim>\<open>deleteProduct(productId)\<close>: \<^verbatim>\<open>await shopifyRequest(`products/${productId}.json`,
  'DELETE')\<close>, the parsed answer dropped. When the template literal throws, no request
  is sent. The revision's request helper is the parameter \<open>rq\<close>.
\<close>

definition deleteProduct ::
  "(string \<Rightarrow> http_method \<Rightarrow> json \<Rightarrow> ('w, json) io) \<Rightarrow> json \<Rightarrow> ('w, unit) io" where
  "deleteProduct rq productId st =
     (case to_str productId of
        Inl e \<Rightarrow> (Inl e, st)
      | Inr pid \<Rightarrow>
          (case rq (''products/'' @ pid @ ''.json'') DELETE JNull st of
             (Inl e, st') \<Rightarrow> (Inl e, st')
           | (Inr _, st') \<Rightarrow> (Inr (), st')))"

section \<open>What a handler leaves behind\<close>

text \<open>
  \<open>ErrorJson e\<close> is the body \<^verbatim>\<open>{ success: false, message: err.message || String(err) }\<close>
  of a caught error \<open>e\<close>. \<open>Unhandled e\<close>: the handler's promise rejected with \<open>e\<close> before
  any \<^verbatim>\<open>res.status(...)\<close>, \<^verbatim>\<open>res.send(...)\<close> or \<^verbatim>\<open>res.json(...)\<close>, so no response
  was written.
\<close>

datatype body = Text string | Json json | ErrorJson js_error

datatype outcome = Responded nat body | Unhandled js_error

section \<open>Webhook \<^verbatim>\<open>POST /webhooks/orders/create\<close>\<close>

text \<open>
  Every revision installs \<^verbatim>\<open>app.use(express.json({ limit: ... }))\<close> ahead of its routes
  (\<^verbatim>\<open>part_001\<close> line 8, \<^verbatim>\<open>part_002\<close> lines 15 and 268). On a request with a JSON body
  that parser reads the body and leaves the parsed object or array in \<^verbatim>\<open>req.body\<close>; the
  route's own \<^verbatim>\<open>express.raw({ type: 'application/json' })\<close> then finds the body already
  parsed and passes the request on as it is. So the handler never sees the buffer of the
  raw bytes that its comment (\<^verbatim>\<open>raw body, HMAC verify\<close>) speaks of: it runs on
  \<open>reqBody\<close>, the value of \<^verbatim>\<open>req.body\<close> that the app-level parser left (an object or an
  array; the empty object or \<^verbatim>\<open>undefined\<close> where nothing was parsed), and on \<open>hdr\<close>, the
  value of \<^verbatim>\<open>req.get('X-Shopify-Hmac-Sha256')\<close> (\<open>None\<close>: header absent). The
  definitions below say what the handler's code does on any value of \<^verbatim>\<open>req.body\<close>.
\<close>

text \<open>
  \<^verbatim>\<open>crypto.createHmac('sha256', secret).update(req.body).digest('base64')\<close>:
  \<^verbatim>\<open>update\<close> takes a string or a buffer and throws a \<^verbatim>\<open>TypeError\<close> on any other value.
\<close>

fun hmac_digest :: "'w env \<Rightarrow> string \<Rightarrow> json \<Rightarrow> js_error + string" where
  "hmac_digest E secret (JStr s) = Inr (hmac_sha256_base64 E secret s)"
| "hmac_digest E secret _ = Inl TypeError"

text \<open>
  \<^verbatim>\<open>req.body.toString('utf8')\<close>: on an object \<^verbatim>\<open>Object.prototype.toString\<close> (or the
  call of an own property \<^verbatim>\<open>toString\<close>, which is no function), on an array the join of
  its elements, on a string the string; \<^verbatim>\<open>Number.prototype.toString\<close> takes the argument
  for a radix and throws a \<^verbatim>\<open>RangeError\<close>.
\<close>

fun body_toString :: "json \<Rightarrow> js_error + string" where
  "body_toString JUndefined = Inl TypeError"
| "body_toString JNull = Inl TypeError"
| "body_toString (JNum r) = Inl RangeError"
| "body_toString v = to_str v"

text \<open>\<^verbatim>\<open>crypto.timingSafeEqual(Buffer.from(a), Buffer.from(b))\<close>.\<close>

definition timingSafeEqual :: "string \<Rightarrow> string \<Rightarrow> js_error + bool" where
  "timingSafeEqual a b = (if length a \<noteq> length b then Inl RangeError else Inr (a = b))"

text \<open>
  The collection of product identifiers. \<^verbatim>\<open>Set.prototype.add\<close> compares primitives
  by value and objects by identity; two objects from two \<^verbatim>\<open>JSON.parse\<close> calls are never
  the same object. \<^verbatim>\<open>Array.from(set)\<close> keeps insertion order, so the set is the list
  of its elements in that order.
\<close>

fun primitive :: "json \<Rightarrow> bool" where
  "primitive (JArr _) = False"
| "primitive (JObj _) = False"
| "primitive _ = True"

definition Set_add :: "json list \<Rightarrow> json \<Rightarrow> json list" where
  "Set_add xs v = (if primitive v \<and> v \<in> set xs then xs else xs @ [v])"

definition Array_push :: "json list \<Rightarrow> json \<Rightarrow> json list" where
  "Array_push xs v = xs @ [v]"

text \<open>
  \<^verbatim>\<open>vdata && vdata.variant && vdata.variant.product_id\<close>: the identifier to collect when
  the condition is truthy. A read inside cannot throw (its receiver is truthy); were it
  to throw, the surrounding \<^verbatim>\<open>try\<close> would catch it and nothing would be collected.
\<close>

definition product_id_of :: "json \<Rightarrow> json option" where
  "product_id_of vdata =
     (if \<not> truthy vdata then None
      else
        (case get vdata ''variant'' of
           Inl e \<Rightarrow> None
         | Inr v \<Rightarrow>
             if \<not> truthy v then None
             else
               (case get v ''product_id'' of
                  Inl e \<Rightarrow> None
                | Inr p \<Rightarrow> if truthy p then Some p else None)))"

text \<open>
  The first loop of the handler (\<^verbatim>\<open>part_001\<close> 236-251, \<^verbatim>\<open>part_002\<close> 188-203 and
  369-384), over the line items still to visit. \<open>rq\<close> is the revision's
  \<^verbatim>\<open>shopifyRequest\<close>, \<open>P\<close> is \<^verbatim>\<open>TEMP_SKU_PREFIX\<close>, \<open>add\<close> is \<open>Set_add\<close> or
  \<open>Array_push\<close>. An error of the variant lookup, the template literal of its path
  included, is caught and logged; an error of \<^verbatim>\<open>li.sku\<close> or \<^verbatim>\<open>sku.startsWith\<close>
  leaves the loop.
\<close>

fun lookup_loop ::
  "(string \<Rightarrow> http_method \<Rightarrow> json \<Rightarrow> ('w, json) io) \<Rightarrow> string \<Rightarrow> (json list \<Rightarrow> json \<Rightarrow> json list) \<Rightarrow>
   json list \<Rightarrow> json list \<Rightarrow> ('w, json list) io" where
  "lookup_loop rq P add [] acc st = (Inr acc, st)"
| "lookup_loop rq P add (li # lis) acc st =
     (case get li ''sku'' of
        Inl e \<Rightarrow> (Inl e, st)
      | Inr s \<Rightarrow>
          let sku = js_or s (JStr []) in
          if \<not> truthy sku then lookup_loop rq P add lis acc st
          else
            (case startsWith sku P of
               Inl e \<Rightarrow> (Inl e, st)
             | Inr starts \<Rightarrow>
                 if \<not> starts then lookup_loop rq P add lis acc st
                 else
                   (case get li ''variant_id'' of
                      Inl e \<Rightarrow> (Inl e, st)
                    | Inr variantId \<Rightarrow>
                        if \<not> truthy variantId then lookup_loop rq P add lis acc st
                        else
                          (case to_str variantId of
                             Inl e \<Rightarrow> lookup_loop rq P add lis acc st
                           | Inr vid \<Rightarrow>
                               (case rq (''variants/'' @ vid @ ''.json'') GET JNull st of
                                  (Inl e, st') \<Rightarrow> lookup_loop rq P add lis acc st'
                                | (Inr vdata, st') \<Rightarrow>
                                    (case product_id_of vdata of
                                       Some pid \<Rightarrow> lookup_loop rq P add lis (add acc pid) st'
                                     | None \<Rightarrow> lookup_loop rq P add lis acc st'))))))"

text \<open>
  The second loop: one \<^verbatim>\<open>deleteProduct\<close> per collected identifier, an error caught and
  logged.
\<close>

fun delete_loop ::
  "(string \<Rightarrow> http_method \<Rightarrow> json \<Rightarrow> ('w, json) io) \<Rightarrow> json list \<Rightarrow> 'w st \<Rightarrow> 'w st" where
  "delete_loop rq [] st = st"
| "delete_loop rq (pid # pids) st =
     (case deleteProduct rq pid st of (_, st') \<Rightarrow> delete_loop rq pids st')"

text \<open>
  The body of the handler's \<^verbatim>\<open>try\<close> up to the response:
  \<^verbatim>\<open>JSON.parse(req.body.toString('utf8'))\<close>, \<^verbatim>\<open>bodyJson.line_items || []\<close>, the two loops.
\<close>

definition orders_create_try ::
  "(string \<Rightarrow> http_method \<Rightarrow> json \<Rightarrow> ('w, json) io) \<Rightarrow> (json list \<Rightarrow> json \<Rightarrow> json list) \<Rightarrow>
   'w env \<Rightarrow> json \<Rightarrow> ('w, unit) io" where
  "orders_create_try rq add E reqBody st =
     (case body_toString reqBody of
        Inl e \<Rightarrow> (Inl e, st)
      | Inr txt \<Rightarrow>
          (case JSON_parse E txt of
             None \<Rightarrow> (Inl SyntaxError, st)
           | Some bodyJson \<Rightarrow>
               (case get bodyJson ''line_items'' of
                  Inl e \<Rightarrow> (Inl e, st)
                | Inr l \<Rightarrow>
                    (case iterate (js_or l (JArr [])) of
                       Inl e \<Rightarrow> (Inl e, st)
                     | Inr lineItems \<Rightarrow>
                         (case lookup_loop rq (TEMP_SKU_PREFIX E) add lineItems [] st of
                            (Inl e, st') \<Rightarrow> (Inl e, st')
                          | (Inr toCleanup, st') \<Rightarrow>
                              (Inr (), delete_loop rq toCleanup st'))))))"

text \<open>\<^verbatim>\<open>res.status(200).send('OK')\<close>, or the \<^verbatim>\<open>catch\<close> with \<^verbatim>\<open>res.status(500).send('Error')\<close>.\<close>

definition orders_create_respond ::
  "(string \<Rightarrow> http_method \<Rightarrow> json \<Rightarrow> ('w, json) io) \<Rightarrow> (json list \<Rightarrow> json \<Rightarrow> json list) \<Rightarrow>
   'w env \<Rightarrow> json \<Rightarrow> 'w st \<Rightarrow> outcome \<times> 'w st" where
  "orders_create_respond rq add E reqBody st =
     (case orders_create_try rq add E reqBody st of
        (Inl e, st') \<Rightarrow> (Responded 500 (Text ''Error''), st')
      | (Inr _, st') \<Rightarrow> (Responded 200 (Text ''OK''), st'))"

definition header_or_empty :: "string option \<Rightarrow> string" where
  "header_or_empty hdr = (case hdr of None \<Rightarrow> [] | Some h \<Rightarrow> h)"

text \<open>
  \<^verbatim>\<open>part_001\<close>, lines 215-263. The digest and the comparison stand in one \<^verbatim>\<open>try\<close>,
  whose \<^verbatim>\<open>catch\<close> answers 401.
\<close>

definition webhook_orders_create_A ::
  "'w env \<Rightarrow> string option \<Rightarrow> json \<Rightarrow> 'w st \<Rightarrow> outcome \<times> 'w st" where
  "webhook_orders_create_A E hdr reqBody st =
     (let hmac = header_or_empty hdr; secret = SHOPIFY_WEBHOOK_SECRET E in
      if secret \<noteq> [] then
        (case bindE (hmac_digest E secret reqBody) (\<lambda>gen. timingSafeEqual gen hmac) of
           Inl e \<Rightarrow> (Responded 401 (Text ''HMAC error''), st)
         | Inr eq \<Rightarrow>
             if \<not> eq then (Responded 401 (Text ''HMAC mismatch''), st)
             else orders_create_respond (shopifyRequest_A E) Set_add E reqBody st)
      else orders_create_respond (shopifyRequest_A E) Set_add E reqBody st)"

text \<open>\<^verbatim>\<open>part_002\<close>, lines 167-219.\<close>

definition webhook_orders_create_B ::
  "'w env \<Rightarrow> string option \<Rightarrow> json \<Rightarrow> 'w st \<Rightarrow> outcome \<times> 'w st" where
  "webhook_orders_create_B E hdr reqBody st =
     (let hmac = header_or_empty hdr; secret = SHOPIFY_WEBHOOK_SECRET E in
      if secret \<noteq> [] then
        (case bindE (hmac_digest E secret reqBody) (\<lambda>gen. timingSafeEqual gen hmac) of
           Inl e \<Rightarrow> (Responded 401 (Text ''HMAC check error''), st)
         | Inr eq \<Rightarrow>
             if \<not> eq then (Responded 401 (Text ''HMAC mismatch''), st)
             else orders_create_respond (shopifyRequest_B E) Set_add E reqBody st)
      else orders_create_respond (shopifyRequest_B E) Set_add E reqBody st)"

text \<open>
  \<^verbatim>\<open>part_002\<close>, lines 353-400: no \<^verbatim>\<open>try\<close> around the digest and the comparison, and
  an array in place of the set.
\<close>

definition webhook_orders_create_C ::
  "'w env \<Rightarrow> string option \<Rightarrow> json \<Rightarrow> 'w st \<Rightarrow> outcome \<times> 'w st" where
  "webhook_orders_create_C E hdr reqBody st =
     (let hmac = header_or_empty hdr; secret = SHOPIFY_WEBHOOK_SECRET E in
      if secret \<noteq> [] then
        (case bindE (hmac_digest E secret reqBody) (\<lambda>gen. timingSafeEqual gen hmac) of
           Inl e \<Rightarrow> (Unhandled e, st)
         | Inr eq \<Rightarrow>
             if \<not> eq then (Responded 401 (Text ''HMAC mismatch''), st)
             else orders_create_respond (shopifyRequest_C E) Array_push E reqBody st)
      else orders_create_respond (shopifyRequest_C E) Array_push E reqBody st)"

section \<open>\<^verbatim>\<open>POST /api/create-custom-product\<close>\<close>

text \<open>A destructuring default \<^verbatim>\<open>{ x = d }\<close>: it applies to \<^verbatim>\<open>undefined\<close> only.\<close>

definition js_default :: "json \<Rightarrow> json \<Rightarrow> json" where
  "js_default v d = (if v = JUndefined then d else v)"

text \<open>\<^verbatim>\<open>x && x.k\<close>.\<close>

definition js_and_get :: "json \<Rightarrow> string \<Rightarrow> js_error + json" where
  "js_and_get x k = (if truthy x then get x k else Inr x)"

text \<open>
  \<^verbatim>\<open>s.replace(/^data:image\/[a-zA-Z]+;base64,/, '')\<close> on a string: after
  \<^verbatim>\<open>data:image/\<close> the longest run of ASCII letters must be non-empty and followed by
  \<^verbatim>\<open>;base64,\<close> (a semicolon is no letter, so no shorter run can match); the match is
  removed, and a string without a match is returned as it is.
\<close>

definition is_letter :: "char \<Rightarrow> bool" where
  "is_letter c = (c \<in> set ''abcdefghijklmnopqrstuvwxyzABCDEFGHIJKLMNOPQRSTUVWXYZ'')"

definition strip_data_uri :: "string \<Rightarrow> string" where
  "strip_data_uri s =
     (if prefix ''data:image/'' s then
        (let rest = drop (length ''data:image/'') s;
             after = dropWhile is_letter rest
         in if takeWhile is_letter rest \<noteq> [] \<and> prefix '';base64,'' after
            then drop (length '';base64,'') after
            else s)
      else s)"

text \<open>
  \<^verbatim>\<open>imageBase64.replace(...)\<close> on a truthy \<open>imageBase64\<close>: on a value that is not a string
  \<^verbatim>\<open>replace\<close> is not a function.
\<close>

fun replace_data_uri :: "json \<Rightarrow> js_error + json" where
  "replace_data_uri (JStr s) = Inr (JStr (strip_data_uri s))"
| "replace_data_uri _ = Inl TypeError"

text \<open>The generated SKU \<^verbatim>\<open>`${TEMP_SKU_PREFIX}${Date.now()}`\<close>.\<close>

definition generated_sku :: "'w env \<Rightarrow> 'w \<Rightarrow> string" where
  "generated_sku E w = TEMP_SKU_PREFIX E @ show_nat (Date_now E w)"

text \<open>
  The payload of the product-creation call; \<open>img\<close> is the entry of \<^verbatim>\<open>images\<close> and
  \<open>price\<close> the value of the variant's \<^verbatim>\<open>price\<close>, the two places where the revisions
  differ.
\<close>

definition product_payload :: "json \<Rightarrow> json \<Rightarrow> json \<Rightarrow> string \<Rightarrow> json" where
  "product_payload title img price sku =
     JObj [(''product'', JObj
       [(''title'', title),
        (''vendor'', JStr ''Next Print''),
        (''product_type'', JStr ''Custom Jersey''),
        (''published'', JBool False),
        (''images'', JArr [img]),
        (''variants'', JArr [JObj
           [(''option1'', JStr ''Default''),
            (''price'', price),
            (''sku'', JStr sku)]])])]"

text \<open>
  In revisions A and B the variant's price is \<^verbatim>\<open>String(price || '499.00')\<close>, evaluated
  while the payload is built: when the conversion throws, no call is made.

  The end of every \<^verbatim>\<open>createHiddenProductWithImage\<close>: the call, then
  \<^verbatim>\<open>if (!data || !data.product) throw new Error('Failed to create product: ' +
  JSON.stringify(data)); return data.product\<close>.
\<close>

definition post_product ::
  "(string \<Rightarrow> http_method \<Rightarrow> json \<Rightarrow> ('w, json) io) \<Rightarrow> 'w env \<Rightarrow> json \<Rightarrow> ('w, json) io" where
  "post_product rq E payload st =
     (case rq ''products.json'' POST payload st of
        (Inl e, st') \<Rightarrow> (Inl e, st')
      | (Inr data, st') \<Rightarrow>
          (case js_and_get data ''product'' of
             Inl e \<Rightarrow> (Inl e, st')
           | Inr product \<Rightarrow>
               if \<not> truthy product
               then (Inl (Error (''Failed to create product: '' @ JSON_stringify E data)), st')
               else (Inr product, st')))"

text \<open>\<^verbatim>\<open>part_001\<close>, lines 144-171.\<close>

definition createHiddenProductWithImage_A ::
  "'w env \<Rightarrow> json \<Rightarrow> json \<Rightarrow> json \<Rightarrow> ('w, json) io" where
  "createHiddenProductWithImage_A E title imageBase64 price st =
     (case to_str (js_or (js_default price (JStr ''499.00'')) (JStr ''499.00'')) of
        Inl e \<Rightarrow> (Inl e, st)
      | Inr priceString \<Rightarrow>
          post_product (shopifyRequest_A E) E
            (product_payload (js_default title (JStr ''Custom Jersey''))
               (JObj [(''attachment'', imageBase64)])
               (JStr priceString)
               (generated_sku E (fst st)))
            st)"

text \<open>\<^verbatim>\<open>part_002\<close>, lines 94-115.\<close>

definition createHiddenProductWithImage_B ::
  "'w env \<Rightarrow> json \<Rightarrow> json \<Rightarrow> json \<Rightarrow> ('w, json) io" where
  "createHiddenProductWithImage_B E title fileUrl price st =
     (case to_str (js_or (js_default price (JStr ''499.00'')) (JStr ''499.00'')) of
        Inl e \<Rightarrow> (Inl e, st)
      | Inr priceString \<Rightarrow>
          post_product (shopifyRequest_B E) E
            (product_payload (js_default title (JStr ''Custom Jersey''))
               (JObj [(''src'', fileUrl)])
               (JStr priceString)
               (generated_sku E (fst st)))
            st)"

text \<open>\<^verbatim>\<open>part_002\<close>, lines 307-328.\<close>

definition createHiddenProductWithImage_C ::
  "'w env \<Rightarrow> json \<Rightarrow> json \<Rightarrow> json \<Rightarrow> ('w, json) io" where
  "createHiddenProductWithImage_C E title fileUrl price st =
     post_product (shopifyRequest_C E) E
       (product_payload (js_default title (JStr ''Custom Jersey''))
          (JObj [(''src'', fileUrl)])
          (js_default price (JStr ''499.00''))
          (generated_sku E (fst st)))
       st"

text \<open>
  \<^verbatim>\<open>uploadFileToShopify(base64, filename)\<close> of \<^verbatim>\<open>part_002\<close> (lines 76-89 and
  293-305): \<^verbatim>\<open>if (!data || !data.file || !data.file.url) throw ...; return data.file.url\<close>.
\<close>

definition uploadFileToShopify ::
  "(string \<Rightarrow> http_method \<Rightarrow> json \<Rightarrow> ('w, json) io) \<Rightarrow> 'w env \<Rightarrow> json \<Rightarrow> string \<Rightarrow> ('w, json) io" where
  "uploadFileToShopify rq E base64 filename st =
     (case rq ''files.json'' POST
             (JObj [(''file'', JObj [(''attachment'', base64), (''filename'', JStr filename)])]) st of
        (Inl e, st') \<Rightarrow> (Inl e, st')
      | (Inr data, st') \<Rightarrow>
          (case bindE (js_and_get data ''file'') (\<lambda>f. js_and_get f ''url'') of
             Inl e \<Rightarrow> (Inl e, st')
           | Inr u \<Rightarrow>
               if \<not> truthy u
               then (Inl (Error (''Shopify file upload failed: '' @ JSON_stringify E data)), st')
               else (Inr u, st')))"

text \<open>\<^verbatim>\<open>(product.variants && product.variants[0]) || null\<close>.\<close>

definition first_variant :: "json \<Rightarrow> js_error + json" where
  "first_variant product =
     bindE (get product ''variants'') (\<lambda>vs.
       if \<not> truthy vs then Inr JNull
       else bindE (at0 vs) (\<lambda>v. Inr (js_or v JNull)))"

text \<open>
  \<^verbatim>\<open>(product.images && product.images[0] && (product.images[0].src ||
  product.images[0].attachment)) || null\<close>.
\<close>

definition first_image_src :: "json \<Rightarrow> js_error + json" where
  "first_image_src product =
     bindE (get product ''images'') (\<lambda>imgs.
       if \<not> truthy imgs then Inr JNull
       else bindE (at0 imgs) (\<lambda>i.
         if \<not> truthy i then Inr JNull
         else bindE (get i ''src'') (\<lambda>src.
           if truthy src then Inr src
           else bindE (get i ''attachment'') (\<lambda>a. Inr (js_or a JNull)))))"

definition failure_json :: "string \<Rightarrow> json" where
  "failure_json msg = JObj [(''success'', JBool False), (''message'', JStr msg)]"

text \<open>
  The three reads of \<^verbatim>\<open>const { title = 'Custom Jersey', imageBase64, price } = req.body\<close>;
  they throw when \<^verbatim>\<open>req.body\<close> is \<^verbatim>\<open>null\<close> or \<^verbatim>\<open>undefined\<close>.
\<close>

definition destructure_body :: "json \<Rightarrow> js_error + (json \<times> json \<times> json)" where
  "destructure_body b =
     bindE (get b ''title'') (\<lambda>t.
     bindE (get b ''imageBase64'') (\<lambda>i.
     bindE (get b ''price'') (\<lambda>p.
       Inr (js_default t (JStr ''Custom Jersey''), i, p))))"

text \<open>\<^verbatim>\<open>part_001\<close>, lines 184-209. \<open>reqBody\<close> is \<^verbatim>\<open>req.body\<close>.\<close>

definition success_json_A :: "json \<Rightarrow> js_error + json" where
  "success_json_A product =
     bindE (first_variant product) (\<lambda>variant.
     bindE (js_and_get variant ''id'') (\<lambda>variantId.
     bindE (js_and_get variant ''sku'') (\<lambda>sku.
     bindE (first_image_src product) (\<lambda>imageSrc.
     bindE (get product ''id'') (\<lambda>productId.
       Inr (JObj [(''success'', JBool True), (''productId'', productId),
                  (''variantId'', variantId), (''sku'', sku), (''image'', imageSrc),
                  (''product'', product)]))))))"

definition create_custom_product_A :: "'w env \<Rightarrow> json \<Rightarrow> 'w st \<Rightarrow> outcome \<times> 'w st" where
  "create_custom_product_A E reqBody st =
     (case destructure_body reqBody of
        Inl e \<Rightarrow> (Responded 500 (ErrorJson e), st)
      | Inr (title, imageBase64, price) \<Rightarrow>
          if \<not> truthy imageBase64
          then (Responded 400 (Json (failure_json ''imageBase64 required'')), st)
          else
            (case replace_data_uri imageBase64 of
               Inl e \<Rightarrow> (Responded 500 (ErrorJson e), st)
             | Inr rawBase64 \<Rightarrow>
                 (case createHiddenProductWithImage_A E title rawBase64 price st of
                    (Inl e, st') \<Rightarrow> (Responded 500 (ErrorJson e), st')
                  | (Inr product, st') \<Rightarrow>
                      (case success_json_A product of
                         Inl e \<Rightarrow> (Responded 500 (ErrorJson e), st')
                       | Inr j \<Rightarrow> (Responded 200 (Json j), st')))))"

text \<open>\<^verbatim>\<open>part_002\<close>, lines 128-161.\<close>

definition success_json_B :: "json \<Rightarrow> json \<Rightarrow> js_error + json" where
  "success_json_B product fileUrl =
     bindE (first_variant product) (\<lambda>variant.
     bindE (js_and_get variant ''id'') (\<lambda>variantId.
     bindE (js_and_get variant ''sku'') (\<lambda>sku.
     bindE (get product ''id'') (\<lambda>productId.
       Inr (JObj [(''success'', JBool True), (''productId'', productId),
                  (''variantId'', variantId), (''sku'', sku), (''fileUrl'', fileUrl)])))))"

definition create_custom_product_B :: "'w env \<Rightarrow> json \<Rightarrow> 'w st \<Rightarrow> outcome \<times> 'w st" where
  "create_custom_product_B E reqBody st =
     (case destructure_body reqBody of
        Inl e \<Rightarrow> (Responded 500 (ErrorJson e), st)
      | Inr (title, imageBase64, price) \<Rightarrow>
          if \<not> truthy imageBase64
          then (Responded 400 (Json (failure_json ''imageBase64 required'')), st)
          else
            (case uploadFileToShopify (shopifyRequest_B E) E imageBase64
                    (''custom-'' @ show_nat (Date_now E (fst st)) @ ''.jpg'') st of
               (Inl e, st') \<Rightarrow> (Responded 500 (ErrorJson e), st')
             | (Inr fileUrl, st') \<Rightarrow>
                 (case createHiddenProductWithImage_B E title fileUrl price st' of
                    (Inl e, st'') \<Rightarrow> (Responded 500 (ErrorJson e), st'')
                  | (Inr product, st'') \<Rightarrow>
                      (case success_json_B product fileUrl of
                         Inl e \<Rightarrow> (Responded 500 (ErrorJson e), st'')
                       | Inr j \<Rightarrow> (Responded 200 (Json j), st'')))))"

text \<open>
  \<^verbatim>\<open>part_002\<close>, lines 334-351: \<^verbatim>\<open>variantId = product.variants && product.variants[0]
  && product.variants[0].id\<close> and \<^verbatim>\<open>sku: product.variants[0].sku\<close>, read in that order.
\<close>

definition success_json_C :: "json \<Rightarrow> json \<Rightarrow> js_error + json" where
  "success_json_C product fileUrl =
     bindE (get product ''variants'') (\<lambda>vs.
     bindE (if \<not> truthy vs then Inr vs else bindE (at0 vs) (\<lambda>v. js_and_get v ''id'')) (\<lambda>variantId.
     bindE (get product ''id'') (\<lambda>productId.
     bindE (at0 vs) (\<lambda>v0.
     bindE (get v0 ''sku'') (\<lambda>sku.
       Inr (JObj [(''success'', JBool True), (''productId'', productId),
                  (''variantId'', variantId), (''sku'', sku), (''fileUrl'', fileUrl)]))))))"

definition create_custom_product_C :: "'w env \<Rightarrow> json \<Rightarrow> 'w st \<Rightarrow> outcome \<times> 'w st" where
  "create_custom_product_C E reqBody st =
     (case destructure_body reqBody of
        Inl e \<Rightarrow> (Responded 500 (ErrorJson e), st)
      | Inr (title, imageBase64, price) \<Rightarrow>
          if \<not> truthy imageBase64
          then (Responded 400 (Json (failure_json ''imageBase64 required'')), st)
          else
            (case uploadFileToShopify (shopifyRequest_C E) E imageBase64
                    (''custom-'' @ show_nat (Date_now E (fst st)) @ ''.jpg'') st of
               (Inl e, st') \<Rightarrow> (Responded 500 (ErrorJson e), st')
             | (Inr fileUrl, st') \<Rightarrow>
                 (case createHiddenProductWithImage_C E title fileUrl price st' of
                    (Inl e, st'') \<Rightarrow> (Responded 500 (ErrorJson e), st'')
                  | (Inr product, st'') \<Rightarrow>
                      (case success_json_C product fileUrl of
                         Inl e \<Rightarrow> (Responded 500 (ErrorJson e), st'')
                       | Inr j \<Rightarrow> (Responded 200 (Json j), st'')))))"

section \<open>\<^verbatim>\<open>POST /admin/cleanup-temp-products\<close>\<close>

text \<open>\<^verbatim>\<open>variants.some(v => v.sku && v.sku.startsWith(TEMP_SKU_PREFIX))\<close> on an array.\<close>

fun variants_some :: "string \<Rightarrow> json list \<Rightarrow> js_error + bool" where
  "variants_some P [] = Inr False"
| "variants_some P (v # vs) =
     (case get v ''sku'' of
        Inl e \<Rightarrow> Inl e
      | Inr s \<Rightarrow>
          if \<not> truthy s then variants_some P vs
          else
            (case startsWith s P of
               Inl e \<Rightarrow> Inl e
             | Inr starts \<Rightarrow> if starts then Inr True else variants_some P vs))"

text \<open>
  \<^verbatim>\<open>p.variants && p.variants.some(...)\<close>, as the \<^verbatim>\<open>if\<close> reads it: a truthy
  \<^verbatim>\<open>p.variants\<close> that is not an array has no \<^verbatim>\<open>some\<close>.
\<close>

definition shouldDelete :: "string \<Rightarrow> json \<Rightarrow> js_error + bool" where
  "shouldDelete P p =
     bindE (get p ''variants'') (\<lambda>vs.
       if \<not> truthy vs then Inr False
       else (case vs of JArr xs \<Rightarrow> variants_some P xs | _ \<Rightarrow> Inl TypeError))"

fun sweep_loop ::
  "(string \<Rightarrow> http_method \<Rightarrow> json \<Rightarrow> ('w, json) io) \<Rightarrow> string \<Rightarrow> json list \<Rightarrow> json list \<Rightarrow>
   ('w, json list) io" where
  "sweep_loop rq P [] deleted st = (Inr deleted, st)"
| "sweep_loop rq P (p # ps) deleted st =
     (case shouldDelete P p of
        Inl e \<Rightarrow> (Inl e, st)
      | Inr del \<Rightarrow>
          if \<not> del then sweep_loop rq P ps deleted st
          else
            (case get p ''id'' of
               Inl e \<Rightarrow> sweep_loop rq P ps deleted st
             | Inr pid \<Rightarrow>
                 (case deleteProduct rq pid st of
                    (Inl e, st') \<Rightarrow> sweep_loop rq P ps deleted st'
                  | (Inr _, st') \<Rightarrow> sweep_loop rq P ps (deleted @ [pid]) st')))"

text \<open>The handler after its key check: the list call, the loop, the response.\<close>

definition admin_sweep ::
  "(string \<Rightarrow> http_method \<Rightarrow> json \<Rightarrow> ('w, json) io) \<Rightarrow> 'w env \<Rightarrow> 'w st \<Rightarrow> outcome \<times> 'w st" where
  "admin_sweep rq E st =
     (case rq ''products.json?limit=250&published_status=unpublished'' GET JNull st of
        (Inl e, st') \<Rightarrow> (Responded 500 (ErrorJson e), st')
      | (Inr listRes, st') \<Rightarrow>
          (case bindE (get listRes ''products'') (\<lambda>ps. iterate (js_or ps (JArr []))) of
             Inl e \<Rightarrow> (Responded 500 (ErrorJson e), st')
           | Inr products \<Rightarrow>
               (case sweep_loop rq (TEMP_SKU_PREFIX E) products [] st' of
                  (Inl e, st'') \<Rightarrow> (Responded 500 (ErrorJson e), st'')
                | (Inr deleted, st'') \<Rightarrow>
                    (Responded 200 (Json (JObj
                       [(''success'', JBool True),
                        (''deletedCount'', JNum (show_nat (length deleted))),
                        (''deleted'', JArr deleted)])), st''))))"

text \<open>
  \<^verbatim>\<open>if (ADMIN_KEY && req.get('x-admin-key') !== ADMIN_KEY) return
  res.status(401).json({ success: false, message: 'Unauthorized' })\<close>; \<open>hdr\<close> is
  \<^verbatim>\<open>req.get('x-admin-key')\<close>, \<open>None\<close> when the header is absent.
\<close>

definition admin_cleanup_temp_products ::
  "(string \<Rightarrow> http_method \<Rightarrow> json \<Rightarrow> ('w, json) io) \<Rightarrow> 'w env \<Rightarrow> string option \<Rightarrow> 'w st \<Rightarrow>
   outcome \<times> 'w st" where
  "admin_cleanup_temp_products rq E hdr st =
     (if ADMIN_KEY E \<noteq> [] \<and> hdr \<noteq> Some (ADMIN_KEY E)
      then (Responded 401 (Json (failure_json ''Unauthorized'')), st)
      else admin_sweep rq E st)"

text \<open>
  \<^verbatim>\<open>part_001\<close> 268-288, \<^verbatim>\<open>part_002\<close> 225-252 and 402-430: the same handler over
  each revision's \<^verbatim>\<open>shopifyRequest\<close>.
\<close>

definition admin_cleanup_A :: "'w env \<Rightarrow> string option \<Rightarrow> 'w st \<Rightarrow> outcome \<times> 'w st" where
  "admin_cleanup_A E = admin_cleanup_temp_products (shopifyRequest_A E) E"

definition admin_cleanup_B :: "'w env \<Rightarrow> string option \<Rightarrow> 'w st \<Rightarrow> outcome \<times> 'w st" where
  "admin_cleanup_B E = admin_cleanup_temp_products (shopifyRequest_B E) E"

definition admin_cleanup_C :: "'w env \<Rightarrow> string option \<Rightarrow> 'w st \<Rightarrow> outcome \<times> 'w st" where
  "admin_cleanup_C E = admin_cleanup_temp_products (shopifyRequest_C E) E"

section \<open>Observations on a run\<close>

text \<open>The HTTP status of the response a handler wrote, if it wrote one.\<close>

fun status_of :: "outcome \<Rightarrow> nat option" where
  "status_of (Responded code b) = Some code"
| "status_of (Unhandled e) = None"

text \<open>
  The requests that \<^verbatim>\<open>deleteProduct\<close> sends for a list of identifiers: one each, none
  for an identifier whose string conversion throws.
\<close>

definition delete_requests :: "'w env \<Rightarrow> json list \<Rightarrow> request list" where
  "delete_requests E pids =
     concat (map (\<lambda>pid. case to_str pid of
                           Inl e \<Rightarrow> []
                         | Inr p \<Rightarrow> [mk_request E (''products/'' @ p @ ''.json'') DELETE JNull])
                 pids)"

text \<open>The request of the admin sweep's list call.\<close>

definition list_request :: "'w env \<Rightarrow> request" where
  "list_request E =
     mk_request E ''products.json?limit=250&published_status=unpublished'' GET JNull"

text \<open>
  The value at \<^verbatim>\<open>product.variants[0].sku\<close> of a request's payload, and at
  \<^verbatim>\<open>file.attachment\<close>.
\<close>

definition payload_sku :: "request \<Rightarrow> json option" where
  "payload_sku r =
     (case rq_body r of
        None \<Rightarrow> None
      | Some b \<Rightarrow>
          (case bindE (get b ''product'') (\<lambda>p. bindE (get p ''variants'') (\<lambda>vs.
                  bindE (at0 vs) (\<lambda>v. get v ''sku''))) of
             Inl e \<Rightarrow> None
           | Inr s \<Rightarrow> Some s))"

text \<open>The \<^verbatim>\<open>sku\<close> of a JSON response.\<close>

fun response_sku :: "outcome \<Rightarrow> json option" where
  "response_sku (Responded code (Json j)) = (case get j ''sku'' of Inl e \<Rightarrow> None | Inr s \<Rightarrow> Some s)"
| "response_sku _ = None"

definition payload_attachment :: "request \<Rightarrow> json option" where
  "payload_attachment r =
     (case rq_body r of
        None \<Rightarrow> None
      | Some b \<Rightarrow>
          (case bindE (get b ''file'') (\<lambda>f. get f ''attachment'') of
             Inl e \<Rightarrow> None
           | Inr a \<Rightarrow> Some a))"

text \<open>
  The upload call of revisions B and C for a request body, sent in the world \<open>w\<close>, and
  the world the store leaves behind.
\<close>

definition image_of :: "json \<Rightarrow> json" where
  "image_of reqBody = (case get reqBody ''imageBase64'' of Inl e \<Rightarrow> JUndefined | Inr i \<Rightarrow> i)"

definition upload_request :: "'w env \<Rightarrow> json \<Rightarrow> 'w \<Rightarrow> request" where
  "upload_request E reqBody w =
     mk_request E ''files.json'' POST
       (JObj [(''file'', JObj [(''attachment'', image_of reqBody),
                               (''filename'', JStr (''custom-'' @ show_nat (Date_now E w) @ ''.jpg''))])])"

definition world_after_upload :: "'w env \<Rightarrow> json \<Rightarrow> 'w \<Rightarrow> 'w" where
  "world_after_upload E reqBody w = snd (fetch E (upload_request E reqBody w) w)"

text \<open>
  What upstream answers to the request \<open>rq\<close> sent in the world \<open>w\<close>: the \<^verbatim>\<open>product\<close> of
  the parsed reply, and in it the SKU of the first variant, read as revisions A and B
  read it (\<^verbatim>\<open>variant = (product.variants && product.variants[0]) || null\<close>, then
  \<^verbatim>\<open>variant && variant.sku\<close>) and as revision C reads it
  (\<^verbatim>\<open>product.variants[0].sku\<close>).
\<close>

definition reply_product :: "'w env \<Rightarrow> request \<Rightarrow> 'w \<Rightarrow> json option" where
  "reply_product E rq w =
     (case fetch E rq w of
        (Rejected msg, w') \<Rightarrow> None
      | (Resolved res, w') \<Rightarrow>
          (case JSON_parse E (rs_text res) of
             None \<Rightarrow> None
           | Some data \<Rightarrow>
               (case js_and_get data ''product'' of Inl e \<Rightarrow> None | Inr p \<Rightarrow> Some p)))"

definition reply_sku_AB :: "'w env \<Rightarrow> request \<Rightarrow> 'w \<Rightarrow> json option" where
  "reply_sku_AB E rq w =
     (case reply_product E rq w of
        None \<Rightarrow> None
      | Some p \<Rightarrow>
          (case bindE (first_variant p) (\<lambda>v. js_and_get v ''sku'') of
             Inl e \<Rightarrow> None
           | Inr s \<Rightarrow> Some s))"

definition reply_sku_C :: "'w env \<Rightarrow> request \<Rightarrow> 'w \<Rightarrow> json option" where
  "reply_sku_C E rq w =
     (case reply_product E rq w of
        None \<Rightarrow> None
      | Some p \<Rightarrow>
          (case bindE (get p ''variants'') (\<lambda>vs. bindE (at0 vs) (\<lambda>v. get v ''sku'')) of
             Inl e \<Rightarrow> None
           | Inr s \<Rightarrow> Some s))"

text \<open>
  A line item the first loop can visit without a \<^verbatim>\<open>TypeError\<close>: it is not
  \<^verbatim>\<open>null\<close>, and its \<^verbatim>\<open>sku\<close> is falsy or a string.
\<close>

definition item_ok :: "json \<Rightarrow> bool" where
  "item_ok li =
     (case get li ''sku'' of
        Inl e \<Rightarrow> False
      | Inr s \<Rightarrow> \<not> truthy s \<or> (case s of JStr _ \<Rightarrow> True | _ \<Rightarrow> False))"

text \<open>
  An order payload the handler can walk: not \<^verbatim>\<open>null\<close>, and \<^verbatim>\<open>line_items\<close> falsy
  or iterable with every item as above.
\<close>

definition order_ok :: "json \<Rightarrow> bool" where
  "order_ok bodyJson =
     (case bindE (get bodyJson ''line_items'') (\<lambda>l. iterate (js_or l (JArr []))) of
        Inl e \<Rightarrow> False
      | Inr lineItems \<Rightarrow> list_all item_ok lineItems)"

definition line_items_of :: "json \<Rightarrow> json list" where
  "line_items_of bodyJson =
     (case bindE (get bodyJson ''line_items'') (\<lambda>l. iterate (js_or l (JArr []))) of
        Inl e \<Rightarrow> []
      | Inr lineItems \<Rightarrow> lineItems)"

section \<open>A scripted store for concrete runs\<close>

text \<open>
  The world is the clock in milliseconds; every upstream call takes 120 ms and is
  answered from a table of status and text by verb and path. The parser knows the
  texts that occur in the runs below.
\<close>

definition example_url :: "string \<Rightarrow> string" where
  "example_url path = ''https://example.myshopify.com/admin/api/2024-07/'' @ path"

definition scripted_fetch ::
  "((http_method \<times> string) \<times> nat \<times> string \<times> string) list \<Rightarrow> request \<Rightarrow> nat \<Rightarrow> fetch_result \<times> nat" where
  "scripted_fetch script rq w =
     (case map_of script (rq_method rq, rq_url rq) of
        None \<Rightarrow> (Rejected ''ECONNREFUSED'', w + 120)
      | Some (code, reason, txt) \<Rightarrow>
          (Resolved \<lparr>rs_status = code, rs_statusText = reason, rs_text = txt\<rparr>, w + 120))"

definition order_twice :: json where
  "order_twice = JObj [(''line_items'', JArr
     [JObj [(''sku'', JStr ''CUST-1700000000000''), (''variant_id'', JNum ''11'')],
      JObj [(''sku'', JStr ''CUST-1700000000000''), (''variant_id'', JNum ''11'')]])]"

definition order_two_products :: json where
  "order_two_products = JObj [(''line_items'', JArr
     [JObj [(''sku'', JStr ''CUST-1700000000000''), (''variant_id'', JNum ''11'')],
      JObj [(''sku'', JStr ''CUST-1700000000555''), (''variant_id'', JNum ''12'')]])]"

definition order_twice_text :: string where
  "order_twice_text =
     ''{\"line_items\":[{\"sku\":\"CUST-1700000000000\",\"variant_id\":11},{\"sku\":\"CUST-1700000000000\",\"variant_id\":11}]}''"

definition order_two_products_text :: string where
  "order_two_products_text =
     ''{\"line_items\":[{\"sku\":\"CUST-1700000000000\",\"variant_id\":11},{\"sku\":\"CUST-1700000000555\",\"variant_id\":12}]}''"

text \<open>
  A body that is a JSON array of one string, the string being the text of an order:
  \<^verbatim>\<open>req.body.toString('utf8')\<close> of the parsed array is that text.
\<close>

definition wrapped_order_twice :: json where
  "wrapped_order_twice = JArr [JStr order_twice_text]"

definition wrapped_order_two_products :: json where
  "wrapped_order_two_products = JArr [JStr order_two_products_text]"

definition example_parse :: "string \<Rightarrow> json option" where
  "example_parse = map_of
     [(''{}'', JObj []),
      (order_twice_text, order_twice),
      (order_two_products_text, order_two_products),
      (''{\"variant\":{\"id\":11,\"product_id\":7}}'',
         JObj [(''variant'', JObj [(''id'', JNum ''11''), (''product_id'', JNum ''7'')])]),
      (''{\"variant\":{\"id\":12,\"product_id\":8}}'',
         JObj [(''variant'', JObj [(''id'', JNum ''12''), (''product_id'', JNum ''8'')])]),
      (''{\"errors\":\"Not Found\"}'', JObj [(''errors'', JStr ''Not Found'')]),
      (''{\"products\":[]}'', JObj [(''products'', JArr [])]),
      (''{\"file\":{\"url\":\"https://cdn.example.com/custom.jpg\"}}'',
         JObj [(''file'', JObj [(''url'', JStr ''https://cdn.example.com/custom.jpg'')])]),
      (''{\"product\":{\"id\":7,\"variants\":[{\"id\":11,\"sku\":\"CUST-1700000000000\"}]}}'',
         JObj [(''product'', JObj [(''id'', JNum ''7''), (''variants'', JArr
           [JObj [(''id'', JNum ''11''), (''sku'', JStr ''CUST-1700000000000'')]])])]),
      (''{\"product\":{\"id\":7,\"variants\":[{\"id\":11,\"sku\":\"JERSEY-11\"}]}}'',
         JObj [(''product'', JObj [(''id'', JNum ''7''), (''variants'', JArr
           [JObj [(''id'', JNum ''11''), (''sku'', JStr ''JERSEY-11'')]])])])]"

text \<open>
  The store: variants 11 and 12 belong to products 7 and 8; the delete of product 7
  fails with 404, the delete of product 8 succeeds.
\<close>

definition example_script :: "((http_method \<times> string) \<times> nat \<times> string \<times> string) list" where
  "example_script =
     [((GET, example_url ''variants/11.json''), 200, ''OK'', ''{\"variant\":{\"id\":11,\"product_id\":7}}''),
      ((GET, example_url ''variants/12.json''), 200, ''OK'', ''{\"variant\":{\"id\":12,\"product_id\":8}}''),
      ((DELETE, example_url ''products/7.json''), 404, ''Not Found'', ''{\"errors\":\"Not Found\"}''),
      ((DELETE, example_url ''products/8.json''), 200, ''OK'', ''{}''),
      ((GET, example_url ''products.json?limit=250&published_status=unpublished''), 200, ''OK'',
         ''{\"products\":[]}''),
      ((POST, example_url ''files.json''), 201, ''Created'',
         ''{\"file\":{\"url\":\"https://cdn.example.com/custom.jpg\"}}''),
      ((POST, example_url ''products.json''), 201, ''Created'',
         ''{\"product\":{\"id\":7,\"variants\":[{\"id\":11,\"sku\":\"CUST-1700000000000\"}]}}'')]"

text \<open>A store that files the new variant under a SKU of its own.\<close>

definition renaming_script :: "((http_method \<times> string) \<times> nat \<times> string \<times> string) list" where
  "renaming_script =
     [((POST, example_url ''products.json''), 201, ''Created'',
         ''{\"product\":{\"id\":7,\"variants\":[{\"id\":11,\"sku\":\"JERSEY-11\"}]}}'')]"

text \<open>
  The digest is a stand-in of the right shape, 44 base64 characters whatever the secret
  and the bytes: the HMAC-SHA256 of the bytes \<^verbatim>\<open>{}\<close> under the secret
  \<^verbatim>\<open>whsec_example\<close>. \<open>signed_header\<close> is the header of a request with the raw body
  \<^verbatim>\<open>{}\<close> that is signed under that secret.
\<close>

definition signed_header :: "string option" where
  "signed_header = Some ''QXtU8Q7N2Hq/cI9V/d5KIzF17j34dmvZ8YmlbAxo9bI=''"

definition example_env :: "nat env" where
  "example_env =
     \<lparr>SHOP = ''example.myshopify.com'',
      TOKEN = ''shpat_example'',
      API_VERSION = ''2024-07'',
      TEMP_SKU_PREFIX = ''CUST-'',
      ADMIN_KEY = [],
      SHOPIFY_WEBHOOK_SECRET = [],
      fetch = scripted_fetch example_script,
      Date_now = (\<lambda>w. w),
      JSON_parse = example_parse,
      JSON_stringify = (\<lambda>j. ''<json>''),
      hmac_sha256_base64 = (\<lambda>secret raw. ''QXtU8Q7N2Hq/cI9V/d5KIzF17j34dmvZ8YmlbAxo9bI='')\<rparr>"

definition secret_env :: "nat env" where
  "secret_env = example_env\<lparr>SHOPIFY_WEBHOOK_SECRET := ''whsec_example''\<rparr>"

definition keyed_env :: "nat env" where
  "keyed_env = example_env\<lparr>ADMIN_KEY := ''some-admin-secret''\<rparr>"

definition renaming_env :: "nat env" where
  "renaming_env = example_env\<lparr>fetch := scripted_fetch renaming_script\<rparr>"

definition jersey_request :: json where
  "jersey_request =
     JObj [(''title'', JStr ''Custom Jersey''), (''imageBase64'', JStr ''iVBORw0KGgo=''),
           (''price'', JStr ''499.00'')]"

definition cap_request :: json where
  "cap_request =
     JObj [(''title'', JStr ''Custom Cap''), (''imageBase64'', JStr ''R0lGODlhAQABAAAAACw='')]"

definition data_uri_request :: json where
  "data_uri_request =
     JObj [(''title'', JStr ''Custom Jersey''),
           (''imageBase64'', JStr ''data:image/png;base64,iVBORw0KGgo=''),
           (''price'', JStr ''499.00'')]"

section \<open>Every request is logged once\<close>

lemma shopifyRequest_A_calls:
  "calls (snd (shopifyRequest_A E path m b st)) = calls st @ [mk_request E path m b]"
  by (simp add: shopifyRequest_A_def do_fetch_def calls_def
      split: prod.splits fetch_result.splits option.splits)

lemma shopifyRequest_B_calls:
  "calls (snd (shopifyRequest_B E path m b st)) = calls st @ [mk_request E path m b]"
  by (simp add: shopifyRequest_B_def do_fetch_def calls_def
      split: prod.splits fetch_result.splits option.splits)

lemma shopifyRequest_C_calls:
  "calls (snd (shopifyRequest_C E path m b st)) = calls st @ [mk_request E path m b]"
  by (simp add: shopifyRequest_C_def do_fetch_def calls_def
      split: prod.splits fetch_result.splits option.splits)

text \<open>
  The lemmas on the loops hold for any request helper \<open>rq\<close> that logs exactly its own
  request, as the three revisions do.
\<close>

lemma deleteProduct_calls:
  assumes "\<And>path m b st. calls (snd (rq path m b st)) = calls st @ [mk_request E path m b]"
  shows "calls (snd (deleteProduct rq pid st)) = calls st @ delete_requests E [pid]"
proof (cases "to_str pid")
  case (Inl e)
  then show ?thesis by (simp add: deleteProduct_def delete_requests_def)
next
  case (Inr p)
  obtain r st' where r: "rq (''products/'' @ p @ ''.json'') DELETE JNull st = (r, st')"
    by (cases "rq (''products/'' @ p @ ''.json'') DELETE JNull st")
  have "calls st' = calls st @ [mk_request E (''products/'' @ p @ ''.json'') DELETE JNull]"
    using assms [of "''products/'' @ p @ ''.json''" DELETE JNull st] r by simp
  then show ?thesis
    using Inr r by (cases r) (simp_all add: deleteProduct_def delete_requests_def)
qed

lemma delete_requests_Cons:
  "delete_requests E (pid # pids) = delete_requests E [pid] @ delete_requests E pids"
  by (simp add: delete_requests_def)

text \<open>
  The second loop sends the delete of every collected identifier, in order, whatever
  the store answers to each of them.
\<close>

lemma delete_loop_calls:
  assumes "\<And>path m b st. calls (snd (rq path m b st)) = calls st @ [mk_request E path m b]"
  shows "calls (delete_loop rq pids st) = calls st @ delete_requests E pids"
proof (induction pids arbitrary: st)
  case Nil
  show ?case by (simp add: delete_requests_def)
next
  case (Cons pid pids)
  obtain r st' where d: "deleteProduct rq pid st = (r, st')"
    by (cases "deleteProduct rq pid st")
  have "calls st' = calls st @ delete_requests E [pid]"
    using deleteProduct_calls [OF assms, of pid st] d by simp
  then show ?case
    using d by (simp add: Cons.IH delete_requests_Cons [of E pid pids])
qed

lemma post_product_calls:
  assumes "\<And>path m b st. calls (snd (rq path m b st)) = calls st @ [mk_request E path m b]"
  shows "calls (snd (post_product rq E payload st)) =
         calls st @ [mk_request E ''products.json'' POST payload]"
proof -
  obtain r st' where r: "rq ''products.json'' POST payload st = (r, st')"
    by (cases "rq ''products.json'' POST payload st")
  have "calls st' = calls st @ [mk_request E ''products.json'' POST payload]"
    using assms [of "''products.json''" POST payload st] r by simp
  then show ?thesis
    using r by (cases r) (simp_all add: post_product_def split: sum.splits)
qed

lemmas example_defs = example_env_def secret_env_def keyed_env_def renaming_env_def
  scripted_fetch_def example_script_def renaming_script_def example_parse_def example_url_def
  order_twice_def order_two_products_def order_twice_text_def order_two_products_text_def
  wrapped_order_twice_def wrapped_order_two_products_def signed_header_def
  jersey_request_def cap_request_def data_uri_request_def

lemmas run_defs = mk_request_def do_fetch_def rs_ok_def deleteProduct_def
  orders_create_try_def orders_create_respond_def header_or_empty_def timingSafeEqual_def
  product_id_of_def js_or_def Set_add_def Array_push_def bindE_def show_nat.simps
  digit_char_def calls_def

section \<open>The webhook on the body it receives\<close>

text \<open>
  With a secret configured, the digest of any body that is no string throws, before
  the comparison is reached and whatever the header: revisions A and B catch the error
  and answer 401, revision C has no \<^verbatim>\<open>try\<close> there and its promise rejects. No
  revision makes an upstream call.
\<close>

lemma webhook_A_secret_401:
  assumes "SHOPIFY_WEBHOOK_SECRET E \<noteq> []" and "\<forall>s. reqBody \<noteq> JStr s"
  shows "webhook_orders_create_A E hdr reqBody st = (Responded 401 (Text ''HMAC error''), st)"
  using assms by (cases reqBody) (auto simp: webhook_orders_create_A_def bindE_def)

lemma webhook_B_secret_401:
  assumes "SHOPIFY_WEBHOOK_SECRET E \<noteq> []" and "\<forall>s. reqBody \<noteq> JStr s"
  shows "webhook_orders_create_B E hdr reqBody st =
         (Responded 401 (Text ''HMAC check error''), st)"
  using assms by (cases reqBody) (auto simp: webhook_orders_create_B_def bindE_def)

lemma webhook_C_secret_unhandled:
  assumes "SHOPIFY_WEBHOOK_SECRET E \<noteq> []" and "\<forall>s. reqBody \<noteq> JStr s"
  shows "webhook_orders_create_C E hdr reqBody st = (Unhandled TypeError, st)"
  using assms by (cases reqBody) (auto simp: webhook_orders_create_C_def bindE_def)

text \<open>
  Without a secret, a body that is an object is turned into the text
  \<^verbatim>\<open>[object Object]\<close> (or the call of its own \<^verbatim>\<open>toString\<close> throws); a
  \<^verbatim>\<open>JSON.parse\<close> that rejects this text, as the real one does, leaves the handler in
  its \<^verbatim>\<open>catch\<close>: 500, no upstream call.
\<close>

lemma respond_object_500:
  assumes "JSON_parse E ''[object Object]'' = None"
  shows "orders_create_respond rq add E (JObj kvs) st = (Responded 500 (Text ''Error''), st)"
  using assms by (simp add: orders_create_respond_def orders_create_try_def)

lemma webhook_object_no_secret_500:
  assumes "SHOPIFY_WEBHOOK_SECRET E = []" and "JSON_parse E ''[object Object]'' = None"
  shows "webhook_orders_create_A E hdr (JObj kvs) st = (Responded 500 (Text ''Error''), st) \<and>
         webhook_orders_create_B E hdr (JObj kvs) st = (Responded 500 (Text ''Error''), st) \<and>
         webhook_orders_create_C E hdr (JObj kvs) st = (Responded 500 (Text ''Error''), st)"
  using assms
  by (simp add: webhook_orders_create_A_def webhook_orders_create_B_def
      webhook_orders_create_C_def respond_object_500)

subsection \<open>The collection of product identifiers\<close>

lemma Set_add_distinct:
  "distinct (filter primitive xs) \<Longrightarrow> distinct (filter primitive (Set_add xs v))"
  by (auto simp: Set_add_def)

text \<open>
  With the set of revisions A and B, no number or string is collected twice.
\<close>

lemma lookup_loop_Set_distinct:
  "lookup_loop rq P Set_add items acc st = (Inr toCleanup, st') \<Longrightarrow>
   distinct (filter primitive acc) \<Longrightarrow> distinct (filter primitive toCleanup)"
proof (induction items arbitrary: acc st)
  case Nil
  then show ?case by simp
next
  case (Cons li lis)
  from Cons.prems(1) show ?case
    by (auto simp: Let_def split: sum.splits if_splits prod.splits option.splits
        intro: Cons.IH [OF _ Cons.prems(2)] Cons.IH [OF _ Set_add_distinct [OF Cons.prems(2)]])
qed

text \<open>
  The loops are reached by a body whose \<^verbatim>\<open>toString\<close> is the text of an order: an array
  of one string. On such a body with two line items that resolve to product 7, revision
  A sends one delete and revision C, which pushes onto an array, sends two.
\<close>

lemma webhook_A_wrapped_order_deletes_once:
  "map (\<lambda>r. (rq_method r, rq_url r))
     (calls (snd (webhook_orders_create_A example_env None wrapped_order_twice
                    (1700000300000, [])))) =
   [(GET, ''https://example.myshopify.com/admin/api/2024-07/variants/11.json''),
    (GET, ''https://example.myshopify.com/admin/api/2024-07/variants/11.json''),
    (DELETE, ''https://example.myshopify.com/admin/api/2024-07/products/7.json'')]"
  by (simp add: webhook_orders_create_A_def shopifyRequest_A_def example_defs run_defs)

lemma webhook_C_wrapped_order_deletes_twice:
  "map (\<lambda>r. (rq_method r, rq_url r))
     (calls (snd (webhook_orders_create_C example_env None wrapped_order_twice
                    (1700000300000, [])))) =
   [(GET, ''https://example.myshopify.com/admin/api/2024-07/variants/11.json''),
    (GET, ''https://example.myshopify.com/admin/api/2024-07/variants/11.json''),
    (DELETE, ''https://example.myshopify.com/admin/api/2024-07/products/7.json''),
    (DELETE, ''https://example.myshopify.com/admin/api/2024-07/products/7.json'')]"
  by (simp add: webhook_orders_create_C_def shopifyRequest_C_def example_defs run_defs)

text \<open>
  Claim C1: the resolved product identifiers of matching line items are collected into a
  deduplicated set before deletion, so that a webhook with two line items resolving to
  the same product id results in exactly one delete call for that product.

  The program does not get that far. The order below, sent as Shopify sends it (a JSON
  object, content type \<^verbatim>\<open>application/json\<close>) with no secret configured, reaches the
  handler as the parsed object; \<^verbatim>\<open>req.body.toString('utf8')\<close> is
  \<^verbatim>\<open>[object Object]\<close>, \<^verbatim>\<open>JSON.parse\<close> throws, and every revision answers 500 without
  a lookup or a delete: no delete call where the claim has one. (On the bodies that do
  reach the loops, revisions A and B collect into a set and revision C into an array:
  \<open>lookup_loop_Set_distinct\<close>, \<open>webhook_A_wrapped_order_deletes_once\<close>,
  \<open>webhook_C_wrapped_order_deletes_twice\<close>.)
\<close>

theorem webhook_order_twice_500:
  "body_toString order_twice = Inr ''[object Object]'' \<and>
   JSON_parse example_env ''[object Object]'' = None \<and>
   webhook_orders_create_A example_env None order_twice (1700000300000, []) =
     (Responded 500 (Text ''Error''), (1700000300000, [])) \<and>
   webhook_orders_create_B example_env None order_twice (1700000300000, []) =
     (Responded 500 (Text ''Error''), (1700000300000, [])) \<and>
   webhook_orders_create_C example_env None order_twice (1700000300000, []) =
     (Responded 500 (Text ''Error''), (1700000300000, []))"
  by (simp add: webhook_orders_create_A_def webhook_orders_create_B_def
      webhook_orders_create_C_def example_defs run_defs)

subsection \<open>The signature check\<close>

text \<open>
  Claim C2: while a webhook secret is configured, a request whose
  \<^verbatim>\<open>X-Shopify-Hmac-Sha256\<close> header does not equal the base64 HMAC-SHA256 of the raw body,
  or on which the constant-time comparison itself errors, is answered with status 401
  and no variant-lookup or product-delete call; a request with the correct signature is
  processed.

  No revision processes a correctly signed request. The request below has the raw body
  \<^verbatim>\<open>{}\<close> and the header that signs these bytes under the configured secret. The
  handler receives the parsed object; \<^verbatim>\<open>createHmac(...).update(req.body)\<close> throws a
  \<^verbatim>\<open>TypeError\<close> on it. Revisions A and B answer 401 from their \<^verbatim>\<open>catch\<close>; revision C
  (\<^verbatim>\<open>part_002\<close>, lines 356-362) has no \<^verbatim>\<open>try\<close> around the digest and the comparison,
  its promise rejects and it writes no response at all. The same happens on every
  header and every parsed body (\<open>webhook_A_secret_401\<close>, \<open>webhook_B_secret_401\<close>,
  \<open>webhook_C_secret_unhandled\<close>).
\<close>

theorem webhook_signed_request_rejected:
  "SHOPIFY_WEBHOOK_SECRET secret_env \<noteq> [] \<and>
   JSON_parse secret_env ''{}'' = Some (JObj []) \<and>
   signed_header =
     Some (hmac_sha256_base64 secret_env (SHOPIFY_WEBHOOK_SECRET secret_env) ''{}'') \<and>
   webhook_orders_create_A secret_env signed_header (JObj []) (1700000300000, []) =
     (Responded 401 (Text ''HMAC error''), (1700000300000, [])) \<and>
   webhook_orders_create_B secret_env signed_header (JObj []) (1700000300000, []) =
     (Responded 401 (Text ''HMAC check error''), (1700000300000, [])) \<and>
   webhook_orders_create_C secret_env signed_header (JObj []) (1700000300000, []) =
     (Unhandled TypeError, (1700000300000, []))"
  by (simp add: webhook_orders_create_A_def webhook_orders_create_B_def
      webhook_orders_create_C_def example_defs run_defs)

subsection \<open>The two loops\<close>

text \<open>
  On line items it can walk, the first loop ends without an error, whatever the store
  answers to the variant lookups.
\<close>

lemma lookup_loop_total:
  "list_all item_ok items \<Longrightarrow>
   \<exists>toCleanup st'. lookup_loop rq P add items acc st = (Inr toCleanup, st')"
proof (induction items arbitrary: acc st)
  case Nil
  show ?case by simp
next
  case (Cons li lis)
  from Cons.prems have ok: "item_ok li" and rest: "list_all item_ok lis" by simp_all
  note IH = Cons.IH [OF rest]
  from ok obtain s where s: "get li ''sku'' = Inr s"
    and shape: "\<not> truthy s \<or> (\<exists>t. s = JStr t)"
    by (auto simp: item_ok_def split: sum.splits json.splits)
  show ?case
  proof (cases "truthy s")
    case False
    then show ?thesis using s IH [of acc st] by (simp add: js_or_def)
  next
    case True
    with shape obtain t where t: "s = JStr t" by blast
    show ?thesis
    proof (cases "prefix P t")
      case False
      then show ?thesis using s t True IH [of acc st] by (simp add: js_or_def)
    next
      case pre: True
      obtain variantId where v: "get li ''variant_id'' = Inr variantId"
        using s by (cases li) simp_all
      show ?thesis
      proof (cases "truthy variantId \<and> (\<exists>vid. to_str variantId = Inr vid)")
        case False
        then show ?thesis using s t True pre v IH [of acc st]
          by (cases "to_str variantId") (auto simp: js_or_def)
      next
        case tv: True
        then obtain vid where vid: "to_str variantId = Inr vid" by blast
        obtain r st' where
          r: "rq (''variants/'' @ vid @ ''.json'') GET JNull st = (r, st')"
          by (cases "rq (''variants/'' @ vid @ ''.json'') GET JNull st")
        show ?thesis
        proof (cases r)
          case (Inl e)
          then show ?thesis using s t True pre v tv vid r IH [of acc st']
            by (simp add: js_or_def)
        next
          case (Inr vdata)
          then show ?thesis
            using s t True pre v tv vid r IH [of acc st']
              IH [of "add acc (the (product_id_of vdata))" st']
            by (cases "product_id_of vdata") (simp_all add: js_or_def)
        qed
      qed
    qed
  qed
qed

text \<open>
  Where the text of the body parses to an order the handler can walk, the handler
  answers 200 and has sent the delete of every collected identifier, whatever the
  store answered.
\<close>

lemma respond_best_effort:
  assumes rq: "\<And>path m b st. calls (snd (rq path m b st)) = calls st @ [mk_request E path m b]"
    and text_of: "body_toString reqBody = Inr txt"
    and parse: "JSON_parse E txt = Some bodyJson" and ok: "order_ok bodyJson"
  shows "\<exists>toCleanup st1.
     lookup_loop rq (TEMP_SKU_PREFIX E) add (line_items_of bodyJson) [] st = (Inr toCleanup, st1) \<and>
     fst (orders_create_respond rq add E reqBody st) = Responded 200 (Text ''OK'') \<and>
     calls (snd (orders_create_respond rq add E reqBody st)) =
       calls st1 @ delete_requests E toCleanup"
proof -
  from ok obtain l lineItems where l: "get bodyJson ''line_items'' = Inr l"
    and it: "iterate (js_or l (JArr [])) = Inr lineItems" and all: "list_all item_ok lineItems"
    by (auto simp: order_ok_def bindE_def split: sum.splits)
  have li: "line_items_of bodyJson = lineItems"
    using l it by (simp add: line_items_of_def bindE_def)
  obtain toCleanup st1 where
    lk: "lookup_loop rq (TEMP_SKU_PREFIX E) add lineItems [] st = (Inr toCleanup, st1)"
    using lookup_loop_total [OF all] by blast
  have t: "orders_create_try rq add E reqBody st = (Inr (), delete_loop rq toCleanup st1)"
    using text_of parse l it lk by (simp add: orders_create_try_def)
  have "calls (delete_loop rq toCleanup st1) = calls st1 @ delete_requests E toCleanup"
    by (rule delete_loop_calls [OF rq])
  then show ?thesis
    using t lk li by (simp add: orders_create_respond_def)
qed

text \<open>
  Revision A on the array of one string that holds an order for products 7 and 8: the
  delete of product 8 is attempted after the failed delete of product 7, and the answer
  is 200.
\<close>

lemma webhook_A_wrapped_order_continues:
  "fst (webhook_orders_create_A example_env None wrapped_order_two_products
          (1700000300000, [])) = Responded 200 (Text ''OK'') \<and>
   map (\<lambda>r. (rq_method r, rq_url r))
     (calls (snd (webhook_orders_create_A example_env None wrapped_order_two_products
                    (1700000300000, [])))) =
   [(GET, ''https://example.myshopify.com/admin/api/2024-07/variants/11.json''),
    (GET, ''https://example.myshopify.com/admin/api/2024-07/variants/12.json''),
    (DELETE, ''https://example.myshopify.com/admin/api/2024-07/products/7.json''),
    (DELETE, ''https://example.myshopify.com/admin/api/2024-07/products/8.json'')]"
  by (simp add: webhook_orders_create_A_def shopifyRequest_A_def example_defs run_defs)

text \<open>
  Claim C6: for every webhook request whose body parses as JSON, the handler responds
  with status 200 even if some or all product deletions fail, and a failure deleting
  one product in the batch does not prevent the delete attempts for the remaining
  products.

  The loops are best-effort where they run (\<open>respond_best_effort\<close>,
  \<open>webhook_A_wrapped_order_continues\<close>), but an order does not reach them. The order
  below for the products 7 and 8, a JSON object sent with no secret configured, reaches
  the handler as the parsed object; \<^verbatim>\<open>JSON.parse(req.body.toString('utf8'))\<close> throws on
  \<^verbatim>\<open>[object Object]\<close> and every revision answers 500, with no lookup and no delete
  attempt, where the claim has 200.
\<close>

theorem webhook_two_products_500:
  "JSON_parse example_env order_two_products_text = Some order_two_products \<and>
   body_toString order_two_products = Inr ''[object Object]'' \<and>
   webhook_orders_create_A example_env None order_two_products (1700000300000, []) =
     (Responded 500 (Text ''Error''), (1700000300000, [])) \<and>
   webhook_orders_create_B example_env None order_two_products (1700000300000, []) =
     (Responded 500 (Text ''Error''), (1700000300000, [])) \<and>
   webhook_orders_create_C example_env None order_two_products (1700000300000, []) =
     (Responded 500 (Text ''Error''), (1700000300000, []))"
  by (simp add: webhook_orders_create_A_def webhook_orders_create_B_def
      webhook_orders_create_C_def example_defs run_defs)

text \<open>
  Claim C10: for every webhook body that parses as JSON but has no \<^verbatim>\<open>line_items\<close>
  field (or a \<^verbatim>\<open>null\<close> one), the handler treats it as an empty list: it makes no
  variant-lookup or delete calls and responds with status 200 rather than crashing or
  returning an error.

  The body \<^verbatim>\<open>{}\<close> parses as JSON and has no \<^verbatim>\<open>line_items\<close> field. Sent with no secret
  configured it reaches the handler as the empty object, whose \<^verbatim>\<open>toString\<close> is
  \<^verbatim>\<open>[object Object]\<close>: the handler's own \<^verbatim>\<open>JSON.parse\<close> throws before
  \<^verbatim>\<open>bodyJson.line_items || []\<close> is read, and every revision answers 500.
\<close>

theorem webhook_empty_object_500:
  "JSON_parse example_env ''{}'' = Some (JObj []) \<and>
   get (JObj []) ''line_items'' = Inr JUndefined \<and>
   webhook_orders_create_A example_env None (JObj []) (1700000300000, []) =
     (Responded 500 (Text ''Error''), (1700000300000, [])) \<and>
   webhook_orders_create_B example_env None (JObj []) (1700000300000, []) =
     (Responded 500 (Text ''Error''), (1700000300000, [])) \<and>
   webhook_orders_create_C example_env None (JObj []) (1700000300000, []) =
     (Responded 500 (Text ''Error''), (1700000300000, []))"
  by (simp add: webhook_orders_create_A_def webhook_orders_create_B_def
      webhook_orders_create_C_def example_defs run_defs)

section \<open>Upstream answers with a non-success status\<close>

text \<open>
  Revisions A and B: the call fails with an \<^verbatim>\<open>Error\<close> whose message holds the status
  and the raw text of the answer; the text is not parsed for the caller.
\<close>

lemma shopifyRequest_A_non_success:
  assumes "fetch E (mk_request E path m b) w = (Resolved res, w')" and "\<not> rs_ok res"
  shows "shopifyRequest_A E path m b (w, log) =
     (Inl (Error (''Shopify API error ('' @ show_nat (rs_status res) @ ''): '' @ rs_text res)),
      (w', log @ [mk_request E path m b]))"
  using assms by (simp add: shopifyRequest_A_def do_fetch_def)

lemma shopifyRequest_B_non_success:
  assumes "fetch E (mk_request E path m b) w = (Resolved res, w')" and "\<not> rs_ok res"
  shows "shopifyRequest_B E path m b (w, log) =
     (Inl (Error (''Shopify API error ('' @ show_nat (rs_status res) @ '' '' @ rs_statusText res
                   @ ''): '' @ rs_text res)),
      (w', log @ [mk_request E path m b]))"
  using assms by (simp add: shopifyRequest_B_def do_fetch_def)

text \<open>Revision C returns whatever the text parses to, whatever the status.\<close>

lemma shopifyRequest_C_ignores_status:
  assumes "fetch E (mk_request E path m b) w = (Resolved res, w')"
    and "JSON_parse E (rs_text res) = Some j"
  shows "shopifyRequest_C E path m b (w, log) = (Inr j, (w', log @ [mk_request E path m b]))"
  using assms by (simp add: shopifyRequest_C_def do_fetch_def)

text \<open>
  Claim C3: a call to the Shopify request helper that receives a non-success HTTP status
  fails with an error carrying the status and the raw response body, and the parsed
  response is never returned to the caller.

  Revisions A and B do so (\<open>shopifyRequest_A_non_success\<close>,
  \<open>shopifyRequest_B_non_success\<close>). Revision C (\<^verbatim>\<open>part_002\<close>, lines 280-291) never
  reads the status: the 404 of the store for the deleted product 7, with the body
  \<^verbatim>\<open>{"errors":"Not Found"}\<close>, is parsed and returned as the result of the call.
\<close>

theorem shopifyRequest_C_returns_error_body:
  "fetch example_env (mk_request example_env ''products/7.json'' DELETE JNull) 1700000300000 =
     (Resolved \<lparr>rs_status = 404, rs_statusText = ''Not Found'',
                rs_text = ''{\"errors\":\"Not Found\"}''\<rparr>, 1700000300120) \<and>
   shopifyRequest_C example_env ''products/7.json'' DELETE JNull (1700000300000, []) =
     (Inr (JObj [(''errors'', JStr ''Not Found'')]),
      (1700000300120, [mk_request example_env ''products/7.json'' DELETE JNull]))"
  by (simp add: shopifyRequest_C_def example_defs run_defs)

section \<open>The image data of a create request\<close>

text \<open>
  The pattern of revision A removes a prefix \<^verbatim>\<open>data:image/<letters>;base64,\<close>.
\<close>

lemma strip_data_uri_letters:
  assumes "t \<noteq> []" and "list_all is_letter t"
  shows "strip_data_uri (''data:image/'' @ t @ '';base64,'' @ d) = d"
proof -
  have nl: "\<not> is_letter CHR '';''" by (simp add: is_letter_def)
  have tw: "takeWhile is_letter (t @ '';base64,'' @ d) = t"
    using assms(2) nl by (induction t) simp_all
  have dw: "dropWhile is_letter (t @ '';base64,'' @ d) = '';base64,'' @ d"
    using assms(2) nl by (induction t) simp_all
  show ?thesis
    using assms(1) tw dw by (simp add: strip_data_uri_def Let_def)
qed

lemma replace_data_uri_png:
  "replace_data_uri (JStr ''data:image/png;base64,iVBORw0KGgo='') = Inr (JStr ''iVBORw0KGgo='')"
  by (simp add: strip_data_uri_def is_letter_def)

text \<open>A subtype with a character that is no letter is left in place.\<close>

lemma replace_data_uri_svg:
  "replace_data_uri (JStr ''data:image/svg+xml;base64,PHN2Zz4='') =
     Inr (JStr ''data:image/svg+xml;base64,PHN2Zz4='')"
  by (simp add: strip_data_uri_def is_letter_def)

text \<open>
  Revisions B and C send any truthy \<^verbatim>\<open>imageBase64\<close> as the \<^verbatim>\<open>attachment\<close> of the
  upload call, as it came.
\<close>

lemma uploadFileToShopify_calls:
  assumes "\<And>path m b st. calls (snd (rq path m b st)) = calls st @ [mk_request E path m b]"
  shows "calls (snd (uploadFileToShopify rq E base64 filename st)) =
         calls st @ [mk_request E ''files.json'' POST
           (JObj [(''file'', JObj [(''attachment'', base64), (''filename'', JStr filename)])])]"
proof -
  let ?b = "JObj [(''file'', JObj [(''attachment'', base64), (''filename'', JStr filename)])]"
  obtain r st' where r: "rq ''files.json'' POST ?b st = (r, st')"
    by (cases "rq ''files.json'' POST ?b st")
  have "calls st' = calls st @ [mk_request E ''files.json'' POST ?b]"
    using assms [of "''files.json''" POST ?b st] r by simp
  then show ?thesis
    using r by (cases r) (simp_all add: uploadFileToShopify_def split: sum.splits)
qed

lemma upload_attachment_unchanged:
  "payload_attachment (mk_request E ''files.json'' POST
     (JObj [(''file'', JObj [(''attachment'', v), (''filename'', JStr filename)])])) = Some v"
  by (simp add: payload_attachment_def mk_request_def bindE_def)

lemma create_B_first_call:
  assumes "destructure_body reqBody = Inr (t, v, p)" and "truthy v"
  shows "payload_attachment (hd (calls (snd (create_custom_product_B E reqBody (w, []))))) = Some v"
proof -
  let ?f = "''custom-'' @ show_nat (Date_now E w) @ ''.jpg''"
  obtain r st' where u: "uploadFileToShopify (shopifyRequest_B E) E v ?f (w, []) = (r, st')"
    by (cases "uploadFileToShopify (shopifyRequest_B E) E v ?f (w, [])")
  have c: "calls st' = [mk_request E ''files.json'' POST
             (JObj [(''file'', JObj [(''attachment'', v), (''filename'', JStr ?f)])])]"
    using uploadFileToShopify_calls [OF shopifyRequest_B_calls, of E v ?f "(w, [])"] u
    by (simp add: calls_def)
  show ?thesis
  proof (cases r)
    case (Inl e)
    then show ?thesis
      using assms u c by (simp add: create_custom_product_B_def upload_attachment_unchanged)
  next
    case (Inr fileUrl)
    obtain r2 st'' where p: "createHiddenProductWithImage_B E t fileUrl p st' = (r2, st'')"
      by (cases "createHiddenProductWithImage_B E t fileUrl p st'")
    have "\<exists>xs. calls (snd (createHiddenProductWithImage_B E t fileUrl p st')) = calls st' @ xs"
      by (cases "to_str (js_or (js_default p (JStr ''499.00'')) (JStr ''499.00''))")
         (simp_all add: createHiddenProductWithImage_B_def
            post_product_calls [OF shopifyRequest_B_calls])
    then have "hd (calls st'') = hd (calls st')" using c p by auto
    then show ?thesis
      using assms u c Inr p
      by (cases r2) (simp_all add: create_custom_product_B_def upload_attachment_unchanged
          split: sum.splits)
  qed
qed

text \<open>
  Claim C4: when the \<^verbatim>\<open>imageBase64\<close> field of a create-custom-product request carries a
  data-URI prefix such as \<^verbatim>\<open>data:image/png;base64,\<close>, the prefix is stripped before the
  image data is used in the upload or product-creation call.

  Revision A strips it (\<open>strip_data_uri_letters\<close>, \<open>replace_data_uri_png\<close>). Revisions B
  and C (\<^verbatim>\<open>part_002\<close>, lines 138-144 and 338-341) hand \<^verbatim>\<open>imageBase64\<close> to
  \<^verbatim>\<open>uploadFileToShopify\<close> as it came: the \<^verbatim>\<open>attachment\<close> of the upload call of
  revision B still starts with the prefix.
\<close>

theorem create_B_uploads_data_uri:
  "get data_uri_request ''imageBase64'' = Inr (JStr ''data:image/png;base64,iVBORw0KGgo='') \<and>
   map payload_attachment
     (calls (snd (create_custom_product_B example_env data_uri_request (1700000000000, [])))) =
   [Some (JStr ''data:image/png;base64,iVBORw0KGgo=''), None]"
  by (simp add: create_custom_product_B_def createHiddenProductWithImage_B_def shopifyRequest_B_def
      uploadFileToShopify_def post_product_def destructure_body_def bindE_def js_default_def
      js_and_get_def payload_attachment_def product_payload_def generated_sku_def
      success_json_B_def first_variant_def example_defs run_defs)

section \<open>The generated SKU\<close>

lemma digit_char_inj: "a < 10 \<Longrightarrow> b < 10 \<Longrightarrow> digit_char a = digit_char b \<Longrightarrow> a = b"
proof -
  assume a: "a < 10" and b: "b < 10" and e: "digit_char a = digit_char b"
  have d: "distinct ''0123456789''" by simp
  have "(''0123456789'' ! a = ''0123456789'' ! b) = (a = b)"
    by (rule nth_eq_iff_index_eq [OF d]) (use a b in simp_all)
  with e show "a = b" by (simp add: digit_char_def)
qed

lemma show_nat_nonempty: "show_nat n \<noteq> []"
  by (subst show_nat.simps) simp

lemma show_nat_last: "last (show_nat n) = digit_char (n mod 10)"
  by (subst show_nat.simps) simp

lemma show_nat_butlast: "butlast (show_nat n) = (if n < 10 then [] else show_nat (n div 10))"
  by (subst show_nat.simps) simp

text \<open>Two numbers with the same decimal rendering are equal.\<close>

lemma show_nat_inj: "show_nat n = show_nat m \<Longrightarrow> n = m"
proof (induction n arbitrary: m rule: less_induct)
  case (less n)
  have l: "digit_char (n mod 10) = digit_char (m mod 10)"
    using less.prems show_nat_last [of n] show_nat_last [of m] by simp
  have md: "n mod 10 = m mod 10"
    by (rule digit_char_inj [OF _ _ l]) simp_all
  have b: "(if n < 10 then [] else show_nat (n div 10)) =
           (if m < 10 then [] else show_nat (m div 10))"
    using less.prems show_nat_butlast [of n] show_nat_butlast [of m] by simp
  show ?case
  proof (cases "n < 10")
    case True
    with b have "m < 10" using show_nat_nonempty [of "m div 10"] by (auto split: if_splits)
    with True md show ?thesis by simp
  next
    case False
    with b have m: "\<not> m < 10" using show_nat_nonempty [of "n div 10"] by (auto split: if_splits)
    with False b have "show_nat (n div 10) = show_nat (m div 10)" by simp
    moreover have "n div 10 < n" using False by simp
    ultimately have "n div 10 = m div 10" by (rule less.IH [rotated])
    with md show ?thesis by (metis div_mult_mod_eq)
  qed
qed

lemma generated_sku_eq_iff:
  "(generated_sku E w1 = generated_sku E w2) = (Date_now E w1 = Date_now E w2)"
  by (auto simp: generated_sku_def dest: show_nat_inj)

lemma generated_sku_prefix: "prefix (TEMP_SKU_PREFIX E) (generated_sku E w)"
  by (simp add: generated_sku_def)

lemma payload_sku_product:
  "payload_sku (mk_request E path m (product_payload t i p s)) = Some (JStr s)"
  by (simp add: payload_sku_def mk_request_def product_payload_def bindE_def)

text \<open>
  In revisions A and B the payload is built by \<^verbatim>\<open>price: String(price || '499.00')\<close>
  and then \<^verbatim>\<open>sku: `${TEMP_SKU_PREFIX}${Date.now()}`\<close>: when the conversion of the
  price throws, the step fails before a SKU is generated and sends nothing.
\<close>

lemma create_A_price_throws:
  assumes "to_str (js_or (js_default p (JStr ''499.00'')) (JStr ''499.00'')) = Inl e"
  shows "createHiddenProductWithImage_A E t i p st = (Inl e, st)"
  using assms by (simp add: createHiddenProductWithImage_A_def)

lemma create_B_price_throws:
  assumes "to_str (js_or (js_default p (JStr ''499.00'')) (JStr ''499.00'')) = Inl e"
  shows "createHiddenProductWithImage_B E t i p st = (Inl e, st)"
  using assms by (simp add: createHiddenProductWithImage_B_def)

text \<open>
  Otherwise the last call of the step is the product-creation call, and the SKU in its
  payload is the one generated from the clock at the start of the step. Revision C
  passes the price on as it came.
\<close>

lemma created_sku_A:
  assumes "to_str (js_or (js_default p (JStr ''499.00'')) (JStr ''499.00'')) = Inr q"
  shows "payload_sku (last (calls (snd (createHiddenProductWithImage_A E t i p st)))) =
         Some (JStr (generated_sku E (fst st)))"
  using assms
  by (simp add: createHiddenProductWithImage_A_def post_product_calls [OF shopifyRequest_A_calls]
      payload_sku_product)

lemma created_sku_B:
  assumes "to_str (js_or (js_default p (JStr ''499.00'')) (JStr ''499.00'')) = Inr q"
  shows "payload_sku (last (calls (snd (createHiddenProductWithImage_B E t i p st)))) =
         Some (JStr (generated_sku E (fst st)))"
  using assms
  by (simp add: createHiddenProductWithImage_B_def post_product_calls [OF shopifyRequest_B_calls]
      payload_sku_product)

lemma created_sku_C:
  "payload_sku (last (calls (snd (createHiddenProductWithImage_C E t i p st)))) =
   Some (JStr (generated_sku E (fst st)))"
  by (simp add: createHiddenProductWithImage_C_def post_product_calls [OF shopifyRequest_C_calls]
      payload_sku_product)

text \<open>
  Claim C5, as amended: two create-custom-product requests generate distinct variant SKUs
  exactly when their product-creation steps read different \<^verbatim>\<open>Date.now()\<close> values; two
  requests whose steps read the same millisecond generate the same SKU. (The SKU is the
  reserved prefix followed by the decimal millisecond timestamp and nothing else, in all
  three revisions.) In revisions A and B a step generates a SKU when the conversion
  \<^verbatim>\<open>String(price || '499.00')\<close> that precedes it returns (\<open>create_A_price_throws\<close>,
  \<open>create_B_price_throws\<close>); revision C has no such conversion.
\<close>

theorem generated_skus_differ_iff_clock_differs:
  "((\<exists>q. to_str (js_or (js_default p1 (JStr ''499.00'')) (JStr ''499.00'')) = Inr q) \<and>
    (\<exists>q. to_str (js_or (js_default p2 (JStr ''499.00'')) (JStr ''499.00'')) = Inr q) \<longrightarrow>
    (payload_sku (last (calls (snd (createHiddenProductWithImage_A E t1 i1 p1 (w1, l1))))) =
     payload_sku (last (calls (snd (createHiddenProductWithImage_A E t2 i2 p2 (w2, l2))))))
    = (Date_now E w1 = Date_now E w2)) \<and>
   ((\<exists>q. to_str (js_or (js_default p1 (JStr ''499.00'')) (JStr ''499.00'')) = Inr q) \<and>
    (\<exists>q. to_str (js_or (js_default p2 (JStr ''499.00'')) (JStr ''499.00'')) = Inr q) \<longrightarrow>
    (payload_sku (last (calls (snd (createHiddenProductWithImage_B E t1 i1 p1 (w1, l1))))) =
     payload_sku (last (calls (snd (createHiddenProductWithImage_B E t2 i2 p2 (w2, l2))))))
    = (Date_now E w1 = Date_now E w2)) \<and>
   ((payload_sku (last (calls (snd (createHiddenProductWithImage_C E t1 i1 p1 (w1, l1))))) =
     payload_sku (last (calls (snd (createHiddenProductWithImage_C E t2 i2 p2 (w2, l2))))))
    = (Date_now E w1 = Date_now E w2))"
proof (intro conjI impI)
  assume "(\<exists>q. to_str (js_or (js_default p1 (JStr ''499.00'')) (JStr ''499.00'')) = Inr q) \<and>
    (\<exists>q. to_str (js_or (js_default p2 (JStr ''499.00'')) (JStr ''499.00'')) = Inr q)"
  then obtain q1 q2 where
    "to_str (js_or (js_default p1 (JStr ''499.00'')) (JStr ''499.00'')) = Inr q1"
    "to_str (js_or (js_default p2 (JStr ''499.00'')) (JStr ''499.00'')) = Inr q2"
    by blast
  then show "(payload_sku (last (calls (snd (createHiddenProductWithImage_A E t1 i1 p1 (w1, l1))))) =
     payload_sku (last (calls (snd (createHiddenProductWithImage_A E t2 i2 p2 (w2, l2))))))
    = (Date_now E w1 = Date_now E w2)"
    by (simp add: created_sku_A generated_sku_eq_iff)
next
  assume "(\<exists>q. to_str (js_or (js_default p1 (JStr ''499.00'')) (JStr ''499.00'')) = Inr q) \<and>
    (\<exists>q. to_str (js_or (js_default p2 (JStr ''499.00'')) (JStr ''499.00'')) = Inr q)"
  then obtain q1 q2 where
    "to_str (js_or (js_default p1 (JStr ''499.00'')) (JStr ''499.00'')) = Inr q1"
    "to_str (js_or (js_default p2 (JStr ''499.00'')) (JStr ''499.00'')) = Inr q2"
    by blast
  then show "(payload_sku (last (calls (snd (createHiddenProductWithImage_B E t1 i1 p1 (w1, l1))))) =
     payload_sku (last (calls (snd (createHiddenProductWithImage_B E t2 i2 p2 (w2, l2))))))
    = (Date_now E w1 = Date_now E w2)"
    by (simp add: created_sku_B generated_sku_eq_iff)
next
  show "(payload_sku (last (calls (snd (createHiddenProductWithImage_C E t1 i1 p1 (w1, l1))))) =
     payload_sku (last (calls (snd (createHiddenProductWithImage_C E t2 i2 p2 (w2, l2))))))
    = (Date_now E w1 = Date_now E w2)"
    by (simp add: created_sku_C generated_sku_eq_iff)
qed

text \<open>
  One millisecond apart, with the price \<^verbatim>\<open>'499.00'\<close> in one request and none in the
  other, the two SKUs differ.
\<close>

theorem generated_skus_differ_witness:
  "(\<exists>q. to_str (js_or (js_default (JStr ''499.00'') (JStr ''499.00'')) (JStr ''499.00'')) = Inr q) \<and>
   (\<exists>q. to_str (js_or (js_default JUndefined (JStr ''499.00'')) (JStr ''499.00'')) = Inr q) \<and>
   Date_now example_env 1700000000000 \<noteq> Date_now example_env 1700000000001 \<and>
   payload_sku (last (calls (snd (createHiddenProductWithImage_A example_env
      (JStr ''Custom Jersey'') (JStr ''iVBORw0KGgo='') (JStr ''499.00'') (1700000000000, []))))) \<noteq>
   payload_sku (last (calls (snd (createHiddenProductWithImage_A example_env
      (JStr ''Custom Cap'') (JStr ''R0lGODlhAQABAAAAACw='') JUndefined (1700000000001, [])))))"
proof -
  have p1: "\<exists>q. to_str (js_or (js_default (JStr ''499.00'') (JStr ''499.00'')) (JStr ''499.00'')) = Inr q"
    by (simp add: js_or_def js_default_def)
  have p2: "\<exists>q. to_str (js_or (js_default JUndefined (JStr ''499.00'')) (JStr ''499.00'')) = Inr q"
    by (simp add: js_or_def js_default_def)
  have d: "Date_now example_env 1700000000000 \<noteq> Date_now example_env 1700000000001"
    by (simp add: example_env_def)
  have "(\<exists>q. to_str (js_or (js_default (JStr ''499.00'') (JStr ''499.00'')) (JStr ''499.00'')) = Inr q) \<and>
    (\<exists>q. to_str (js_or (js_default JUndefined (JStr ''499.00'')) (JStr ''499.00'')) = Inr q) \<longrightarrow>
    (payload_sku (last (calls (snd (createHiddenProductWithImage_A example_env
      (JStr ''Custom Jersey'') (JStr ''iVBORw0KGgo='') (JStr ''499.00'') (1700000000000, []))))) =
     payload_sku (last (calls (snd (createHiddenProductWithImage_A example_env
      (JStr ''Custom Cap'') (JStr ''R0lGODlhAQABAAAAACw='') JUndefined (1700000000001, []))))))
    = (Date_now example_env 1700000000000 = Date_now example_env 1700000000001)"
    by (rule conjunct1 [OF generated_skus_differ_iff_clock_differs])
  from mp [OF this conjI [OF p1 p2]] d have
    "payload_sku (last (calls (snd (createHiddenProductWithImage_A example_env
      (JStr ''Custom Jersey'') (JStr ''iVBORw0KGgo='') (JStr ''499.00'') (1700000000000, []))))) \<noteq>
     payload_sku (last (calls (snd (createHiddenProductWithImage_A example_env
      (JStr ''Custom Cap'') (JStr ''R0lGODlhAQABAAAAACw='') JUndefined (1700000000001, [])))))"
    by simp
  with p1 p2 d show ?thesis by (intro conjI)
qed

text \<open>
  The claim as stated fails: two different requests handled by revision A in the same
  millisecond 1700000000000 both submit the SKU \<^verbatim>\<open>CUST-1700000000000\<close>.
\<close>

theorem same_millisecond_same_sku:
  "jersey_request \<noteq> cap_request \<and>
   map payload_sku
     (calls (snd (create_custom_product_A example_env jersey_request (1700000000000, [])))) =
     [Some (JStr ''CUST-1700000000000'')] \<and>
   map payload_sku
     (calls (snd (create_custom_product_A example_env cap_request (1700000000000, [])))) =
     [Some (JStr ''CUST-1700000000000'')]"
  by (simp add: create_custom_product_A_def createHiddenProductWithImage_A_def shopifyRequest_A_def
      post_product_def destructure_body_def bindE_def js_default_def
      js_and_get_def payload_sku_def product_payload_def generated_sku_def
      success_json_A_def first_variant_def first_image_src_def strip_data_uri_def is_letter_def
      example_defs run_defs)

section \<open>Create requests: validation and the SKU of the new variant\<close>

text \<open>
  Claim C7: for every create-custom-product request whose body lacks the
  \<^verbatim>\<open>imageBase64\<close> field, the handler responds with a 4xx status (400) and a failure body
  (\<^verbatim>\<open>{ success: false, message: 'imageBase64 required' }\<close>), and makes no upstream call:
  the world and the list of calls are as before. This holds in the three revisions.
  \<^verbatim>\<open>req.body\<close> is the JSON object \<open>JObj kvs\<close>.
\<close>

theorem create_without_image_400:
  assumes "map_of kvs ''imageBase64'' = None"
  shows "create_custom_product_A E (JObj kvs) st =
           (Responded 400 (Json (failure_json ''imageBase64 required'')), st) \<and>
         create_custom_product_B E (JObj kvs) st =
           (Responded 400 (Json (failure_json ''imageBase64 required'')), st) \<and>
         create_custom_product_C E (JObj kvs) st =
           (Responded 400 (Json (failure_json ''imageBase64 required'')), st)"
  using assms
  by (simp add: create_custom_product_A_def create_custom_product_B_def
      create_custom_product_C_def destructure_body_def bindE_def)

theorem create_without_image_400_witness:
  "map_of [(''title'', JStr ''Custom Jersey''), (''price'', JStr ''499.00'')] ''imageBase64'' = None \<and>
   create_custom_product_A example_env
       (JObj [(''title'', JStr ''Custom Jersey''), (''price'', JStr ''499.00'')]) (1700000000000, []) =
     (Responded 400 (Json (JObj [(''success'', JBool False),
                                 (''message'', JStr ''imageBase64 required'')])),
      (1700000000000, [])) \<and>
   create_custom_product_B example_env
       (JObj [(''title'', JStr ''Custom Jersey''), (''price'', JStr ''499.00'')]) (1700000000000, []) =
     (Responded 400 (Json (JObj [(''success'', JBool False),
                                 (''message'', JStr ''imageBase64 required'')])),
      (1700000000000, [])) \<and>
   create_custom_product_C example_env
       (JObj [(''title'', JStr ''Custom Jersey''), (''price'', JStr ''499.00'')]) (1700000000000, []) =
     (Responded 400 (Json (JObj [(''success'', JBool False),
                                 (''message'', JStr ''imageBase64 required'')])),
      (1700000000000, []))"
proof -
  have h: "map_of [(''title'', JStr ''Custom Jersey''), (''price'', JStr ''499.00'')]
             ''imageBase64'' = None"
    by simp
  show ?thesis
    using h create_without_image_400 [OF h, of example_env "(1700000000000, [])"]
    by (simp add: failure_json_def)
qed

text \<open>
  A successful call of a request helper has fetched its own request in the world of
  the call and parsed the text of the reply.
\<close>

lemma shopifyRequest_A_success:
  assumes "shopifyRequest_A E path m b (w, l) = (Inr j, st')"
  shows "\<exists>res. fetch E (mk_request E path m b) w = (Resolved res, fst st') \<and>
               JSON_parse E (rs_text res) = Some j \<and> snd st' = l @ [mk_request E path m b]"
  using assms
  by (auto simp: shopifyRequest_A_def do_fetch_def
      split: prod.splits fetch_result.splits option.splits if_splits)

lemma shopifyRequest_B_success:
  assumes "shopifyRequest_B E path m b (w, l) = (Inr j, st')"
  shows "\<exists>res. fetch E (mk_request E path m b) w = (Resolved res, fst st') \<and>
               JSON_parse E (rs_text res) = Some j \<and> snd st' = l @ [mk_request E path m b]"
  using assms
  by (auto simp: shopifyRequest_B_def do_fetch_def
      split: prod.splits fetch_result.splits option.splits if_splits)

lemma shopifyRequest_C_success:
  assumes "shopifyRequest_C E path m b (w, l) = (Inr j, st')"
  shows "\<exists>res. fetch E (mk_request E path m b) w = (Resolved res, fst st') \<and>
               JSON_parse E (rs_text res) = Some j \<and> snd st' = l @ [mk_request E path m b]"
  using assms
  by (auto simp: shopifyRequest_C_def do_fetch_def
      split: prod.splits fetch_result.splits option.splits if_splits)

text \<open>
  The product that \<^verbatim>\<open>createHiddenProductWithImage\<close> returns is the \<^verbatim>\<open>product\<close> of
  upstream's reply to the product-creation call, the last call made.
\<close>

lemma post_product_success:
  assumes rq: "\<And>path m b w l j st'. rq path m b (w, l) = (Inr j, st') \<Longrightarrow>
      \<exists>res. fetch E (mk_request E path m b) w = (Resolved res, fst st') \<and>
            JSON_parse E (rs_text res) = Some j \<and> snd st' = l @ [mk_request E path m b]"
    and post: "post_product rq E payload (w, l) = (Inr product, st')"
  shows "reply_product E (mk_request E ''products.json'' POST payload) w = Some product \<and>
         snd st' = l @ [mk_request E ''products.json'' POST payload]"
proof -
  obtain r st1 where r: "rq ''products.json'' POST payload (w, l) = (r, st1)"
    by (cases "rq ''products.json'' POST payload (w, l)")
  from post r obtain data where data: "r = Inr data" and st: "st1 = st'"
    and p: "js_and_get data ''product'' = Inr product"
    by (cases r) (auto simp: post_product_def split: sum.splits if_splits)
  from rq [OF r [unfolded data]] obtain res where
    f: "fetch E (mk_request E ''products.json'' POST payload) w = (Resolved res, fst st1)"
    and j: "JSON_parse E (rs_text res) = Some data"
    and l: "snd st1 = l @ [mk_request E ''products.json'' POST payload]"
    by blast
  show ?thesis
    using f j l p st by (simp add: reply_product_def)
qed

text \<open>The \<^verbatim>\<open>sku\<close> of a success response is the SKU read from the returned product.\<close>

lemma success_json_A_sku:
  assumes "success_json_A product = Inr j"
  shows "\<exists>s. bindE (first_variant product) (\<lambda>v. js_and_get v ''sku'') = Inr s \<and>
             get j ''sku'' = Inr s"
  using assms by (auto simp: success_json_A_def bindE_def split: sum.splits)

lemma success_json_B_sku:
  assumes "success_json_B product fileUrl = Inr j"
  shows "\<exists>s. bindE (first_variant product) (\<lambda>v. js_and_get v ''sku'') = Inr s \<and>
             get j ''sku'' = Inr s"
  using assms by (auto simp: success_json_B_def bindE_def split: sum.splits)

lemma success_json_C_sku:
  assumes "success_json_C product fileUrl = Inr j"
  shows "\<exists>s. bindE (get product ''variants'') (\<lambda>vs. bindE (at0 vs) (\<lambda>v. get v ''sku'')) = Inr s \<and>
             get j ''sku'' = Inr s"
  using assms by (auto simp: success_json_C_def bindE_def split: sum.splits if_splits)

text \<open>
  A handler that answered 200 went through its product-creation call: the payload
  carried the SKU generated at that moment, and the response was built from the
  product returned.
\<close>

lemma create_A_success:
  assumes "status_of (fst (create_custom_product_A E reqBody (w, l))) = Some 200"
  shows "\<exists>payload product j.
     post_product (shopifyRequest_A E) E payload (w, l) =
       (Inr product, snd (create_custom_product_A E reqBody (w, l))) \<and>
     payload_sku (mk_request E ''products.json'' POST payload) = Some (JStr (generated_sku E w)) \<and>
     success_json_A product = Inr j \<and>
     fst (create_custom_product_A E reqBody (w, l)) = Responded 200 (Json j)"
  using assms
  apply (auto simp: create_custom_product_A_def createHiddenProductWithImage_A_def
      split: sum.splits prod.splits if_splits)
  apply (intro exI conjI)
    apply assumption
   apply (rule payload_sku_product)
  apply assumption
  done

lemma upload_success:
  assumes rq: "\<And>path m b w l j st'. rq path m b (w, l) = (Inr j, st') \<Longrightarrow>
      \<exists>res. fetch E (mk_request E path m b) w = (Resolved res, fst st') \<and>
            JSON_parse E (rs_text res) = Some j \<and> snd st' = l @ [mk_request E path m b]"
    and i: "get reqBody ''imageBase64'' = Inr i"
    and up: "uploadFileToShopify rq E i (''custom-'' @ show_nat (Date_now E w) @ ''.jpg'') (w, l) =
             (Inr fileUrl, st')"
  shows "st' = (world_after_upload E reqBody w, l @ [upload_request E reqBody w])"
proof -
  let ?b = "JObj [(''file'', JObj [(''attachment'', i),
              (''filename'', JStr (''custom-'' @ show_nat (Date_now E w) @ ''.jpg''))])]"
  obtain r st1 where r: "rq ''files.json'' POST ?b (w, l) = (r, st1)"
    by (cases "rq ''files.json'' POST ?b (w, l)")
  from up r obtain data where data: "r = Inr data" and st: "st1 = st'"
    by (cases r) (auto simp: uploadFileToShopify_def split: sum.splits if_splits)
  from rq [OF r [unfolded data]] obtain res where
    f: "fetch E (mk_request E ''files.json'' POST ?b) w = (Resolved res, fst st1)"
    and c: "snd st1 = l @ [mk_request E ''files.json'' POST ?b]"
    by blast
  have u: "upload_request E reqBody w = mk_request E ''files.json'' POST ?b"
    using i by (simp add: upload_request_def image_of_def)
  show ?thesis
    using f c st u by (cases st') (simp add: world_after_upload_def)
qed

lemma create_B_success:
  assumes "status_of (fst (create_custom_product_B E reqBody (w, l))) = Some 200"
  shows "\<exists>payload product fileUrl j.
     post_product (shopifyRequest_B E) E payload
         (world_after_upload E reqBody w, l @ [upload_request E reqBody w]) =
       (Inr product, snd (create_custom_product_B E reqBody (w, l))) \<and>
     payload_sku (mk_request E ''products.json'' POST payload) =
       Some (JStr (generated_sku E (world_after_upload E reqBody w))) \<and>
     success_json_B product fileUrl = Inr j \<and>
     fst (create_custom_product_B E reqBody (w, l)) = Responded 200 (Json j)"
proof -
  from assms obtain t i p where d: "destructure_body reqBody = Inr (t, i, p)"
    by (cases "destructure_body reqBody") (auto simp: create_custom_product_B_def)
  then have i: "get reqBody ''imageBase64'' = Inr i"
    by (auto simp: destructure_body_def bindE_def split: sum.splits)
  obtain r st1 where u: "uploadFileToShopify (shopifyRequest_B E) E i
      (''custom-'' @ show_nat (Date_now E w) @ ''.jpg'') (w, l) = (r, st1)"
    by (cases "uploadFileToShopify (shopifyRequest_B E) E i
      (''custom-'' @ show_nat (Date_now E w) @ ''.jpg'') (w, l)")
  from assms d u obtain fileUrl where r: "r = Inr fileUrl"
    by (cases r) (auto simp: create_custom_product_B_def split: if_splits)
  have st1: "st1 = (world_after_upload E reqBody w, l @ [upload_request E reqBody w])"
    by (rule upload_success [OF shopifyRequest_B_success i u [unfolded r]])
  show ?thesis
    using assms d u r st1
    apply (auto simp: create_custom_product_B_def createHiddenProductWithImage_B_def
        split: sum.splits prod.splits if_splits)
    apply (intro exI conjI)
      apply assumption
     apply (rule payload_sku_product)
    apply assumption
    done
qed

lemma create_C_success:
  assumes "status_of (fst (create_custom_product_C E reqBody (w, l))) = Some 200"
  shows "\<exists>payload product fileUrl j.
     post_product (shopifyRequest_C E) E payload
         (world_after_upload E reqBody w, l @ [upload_request E reqBody w]) =
       (Inr product, snd (create_custom_product_C E reqBody (w, l))) \<and>
     payload_sku (mk_request E ''products.json'' POST payload) =
       Some (JStr (generated_sku E (world_after_upload E reqBody w))) \<and>
     success_json_C product fileUrl = Inr j \<and>
     fst (create_custom_product_C E reqBody (w, l)) = Responded 200 (Json j)"
proof -
  from assms obtain t i p where d: "destructure_body reqBody = Inr (t, i, p)"
    by (cases "destructure_body reqBody") (auto simp: create_custom_product_C_def)
  then have i: "get reqBody ''imageBase64'' = Inr i"
    by (auto simp: destructure_body_def bindE_def split: sum.splits)
  obtain r st1 where u: "uploadFileToShopify (shopifyRequest_C E) E i
      (''custom-'' @ show_nat (Date_now E w) @ ''.jpg'') (w, l) = (r, st1)"
    by (cases "uploadFileToShopify (shopifyRequest_C E) E i
      (''custom-'' @ show_nat (Date_now E w) @ ''.jpg'') (w, l)")
  from assms d u obtain fileUrl where r: "r = Inr fileUrl"
    by (cases r) (auto simp: create_custom_product_C_def split: if_splits)
  have st1: "st1 = (world_after_upload E reqBody w, l @ [upload_request E reqBody w])"
    by (rule upload_success [OF shopifyRequest_C_success i u [unfolded r]])
  show ?thesis
    using assms d u r st1
    apply (auto simp: create_custom_product_C_def createHiddenProductWithImage_C_def
        split: sum.splits prod.splits if_splits)
    apply (intro exI conjI)
      apply assumption
     apply (rule payload_sku_product)
    apply assumption
    done
qed

lemma created_sku_A_reply:
  assumes "status_of (fst (create_custom_product_A E reqBody (w, l))) = Some 200"
  shows "payload_sku (last (calls (snd (create_custom_product_A E reqBody (w, l))))) =
           Some (JStr (generated_sku E w)) \<and>
         response_sku (fst (create_custom_product_A E reqBody (w, l))) =
           reply_sku_AB E (last (calls (snd (create_custom_product_A E reqBody (w, l))))) w"
proof -
  from create_A_success [OF assms] obtain payload product j where
    post: "post_product (shopifyRequest_A E) E payload (w, l) =
             (Inr product, snd (create_custom_product_A E reqBody (w, l)))"
    and sku: "payload_sku (mk_request E ''products.json'' POST payload) =
             Some (JStr (generated_sku E w))"
    and js: "success_json_A product = Inr j"
    and out: "fst (create_custom_product_A E reqBody (w, l)) = Responded 200 (Json j)"
    by blast
  from post_product_success [OF shopifyRequest_A_success post] have
    rp: "reply_product E (mk_request E ''products.json'' POST payload) w = Some product"
    and c: "snd (snd (create_custom_product_A E reqBody (w, l))) =
            l @ [mk_request E ''products.json'' POST payload]"
    by simp_all
  from success_json_A_sku [OF js] obtain s where
    s: "bindE (first_variant product) (\<lambda>v. js_and_get v ''sku'') = Inr s"
    and g: "get j ''sku'' = Inr s" by blast
  show ?thesis
    using sku rp c s g out by (simp add: calls_def reply_sku_AB_def)
qed

lemma created_sku_B_reply:
  assumes "status_of (fst (create_custom_product_B E reqBody (w, l))) = Some 200"
  shows "payload_sku (last (calls (snd (create_custom_product_B E reqBody (w, l))))) =
           Some (JStr (generated_sku E (world_after_upload E reqBody w))) \<and>
         response_sku (fst (create_custom_product_B E reqBody (w, l))) =
           reply_sku_AB E (last (calls (snd (create_custom_product_B E reqBody (w, l)))))
             (world_after_upload E reqBody w)"
proof -
  from create_B_success [OF assms] obtain payload product fileUrl j where
    post: "post_product (shopifyRequest_B E) E payload
             (world_after_upload E reqBody w, l @ [upload_request E reqBody w]) =
             (Inr product, snd (create_custom_product_B E reqBody (w, l)))"
    and sku: "payload_sku (mk_request E ''products.json'' POST payload) =
             Some (JStr (generated_sku E (world_after_upload E reqBody w)))"
    and js: "success_json_B product fileUrl = Inr j"
    and out: "fst (create_custom_product_B E reqBody (w, l)) = Responded 200 (Json j)"
    by blast
  from post_product_success [OF shopifyRequest_B_success post] have
    rp: "reply_product E (mk_request E ''products.json'' POST payload)
           (world_after_upload E reqBody w) = Some product"
    and c: "snd (snd (create_custom_product_B E reqBody (w, l))) =
            (l @ [upload_request E reqBody w]) @ [mk_request E ''products.json'' POST payload]"
    by simp_all
  from success_json_B_sku [OF js] obtain s where
    s: "bindE (first_variant product) (\<lambda>v. js_and_get v ''sku'') = Inr s"
    and g: "get j ''sku'' = Inr s" by blast
  show ?thesis
    using sku rp c s g out by (simp add: calls_def reply_sku_AB_def)
qed

lemma created_sku_C_reply:
  assumes "status_of (fst (create_custom_product_C E reqBody (w, l))) = Some 200"
  shows "payload_sku (last (calls (snd (create_custom_product_C E reqBody (w, l))))) =
           Some (JStr (generated_sku E (world_after_upload E reqBody w))) \<and>
         response_sku (fst (create_custom_product_C E reqBody (w, l))) =
           reply_sku_C E (last (calls (snd (create_custom_product_C E reqBody (w, l)))))
             (world_after_upload E reqBody w)"
proof -
  from create_C_success [OF assms] obtain payload product fileUrl j where
    post: "post_product (shopifyRequest_C E) E payload
             (world_after_upload E reqBody w, l @ [upload_request E reqBody w]) =
             (Inr product, snd (create_custom_product_C E reqBody (w, l)))"
    and sku: "payload_sku (mk_request E ''products.json'' POST payload) =
             Some (JStr (generated_sku E (world_after_upload E reqBody w)))"
    and js: "success_json_C product fileUrl = Inr j"
    and out: "fst (create_custom_product_C E reqBody (w, l)) = Responded 200 (Json j)"
    by blast
  from post_product_success [OF shopifyRequest_C_success post] have
    rp: "reply_product E (mk_request E ''products.json'' POST payload)
           (world_after_upload E reqBody w) = Some product"
    and c: "snd (snd (create_custom_product_C E reqBody (w, l))) =
            (l @ [upload_request E reqBody w]) @ [mk_request E ''products.json'' POST payload]"
    by simp_all
  from success_json_C_sku [OF js] obtain s where
    s: "bindE (get product ''variants'') (\<lambda>vs. bindE (at0 vs) (\<lambda>v. get v ''sku'')) = Inr s"
    and g: "get j ''sku'' = Inr s" by blast
  show ?thesis
    using sku rp c s g out by (simp add: calls_def reply_sku_C_def)
qed

text \<open>
  Claim C8, as amended: for every create-custom-product request that succeeds (the
  handler answers 200), the last upstream call is the product-creation call, and the SKU
  submitted in it is the configured reserved prefix followed by the clock reading at
  that call (the clock of the request in revision A, the clock after the upload in
  revisions B and C), so it starts with the prefix. The SKU in the response is not that
  string: it is the \<^verbatim>\<open>sku\<close> of the first variant of the product in upstream's reply
  to that call, copied without a check. So the SKU in the response starts with the
  prefix whenever upstream's reply gives the submitted SKU back. This holds in the three
  revisions.
\<close>

theorem created_sku_starts_with_prefix:
  "(status_of (fst (create_custom_product_A E reqBody (w, l))) = Some 200 \<longrightarrow>
      payload_sku (last (calls (snd (create_custom_product_A E reqBody (w, l))))) =
        Some (JStr (generated_sku E w)) \<and>
      prefix (TEMP_SKU_PREFIX E) (generated_sku E w) \<and>
      response_sku (fst (create_custom_product_A E reqBody (w, l))) =
        reply_sku_AB E (last (calls (snd (create_custom_product_A E reqBody (w, l))))) w \<and>
      (reply_sku_AB E (last (calls (snd (create_custom_product_A E reqBody (w, l))))) w =
         payload_sku (last (calls (snd (create_custom_product_A E reqBody (w, l))))) \<longrightarrow>
       (\<exists>s. response_sku (fst (create_custom_product_A E reqBody (w, l))) = Some (JStr s) \<and>
            prefix (TEMP_SKU_PREFIX E) s))) \<and>
   (status_of (fst (create_custom_product_B E reqBody (w, l))) = Some 200 \<longrightarrow>
      payload_sku (last (calls (snd (create_custom_product_B E reqBody (w, l))))) =
        Some (JStr (generated_sku E (world_after_upload E reqBody w))) \<and>
      prefix (TEMP_SKU_PREFIX E) (generated_sku E (world_after_upload E reqBody w)) \<and>
      response_sku (fst (create_custom_product_B E reqBody (w, l))) =
        reply_sku_AB E (last (calls (snd (create_custom_product_B E reqBody (w, l)))))
            (world_after_upload E reqBody w) \<and>
      (reply_sku_AB E (last (calls (snd (create_custom_product_B E reqBody (w, l)))))
          (world_after_upload E reqBody w) =
         payload_sku (last (calls (snd (create_custom_product_B E reqBody (w, l))))) \<longrightarrow>
       (\<exists>s. response_sku (fst (create_custom_product_B E reqBody (w, l))) = Some (JStr s) \<and>
            prefix (TEMP_SKU_PREFIX E) s))) \<and>
   (status_of (fst (create_custom_product_C E reqBody (w, l))) = Some 200 \<longrightarrow>
      payload_sku (last (calls (snd (create_custom_product_C E reqBody (w, l))))) =
        Some (JStr (generated_sku E (world_after_upload E reqBody w))) \<and>
      prefix (TEMP_SKU_PREFIX E) (generated_sku E (world_after_upload E reqBody w)) \<and>
      response_sku (fst (create_custom_product_C E reqBody (w, l))) =
        reply_sku_C E (last (calls (snd (create_custom_product_C E reqBody (w, l)))))
            (world_after_upload E reqBody w) \<and>
      (reply_sku_C E (last (calls (snd (create_custom_product_C E reqBody (w, l)))))
          (world_after_upload E reqBody w) =
         payload_sku (last (calls (snd (create_custom_product_C E reqBody (w, l))))) \<longrightarrow>
       (\<exists>s. response_sku (fst (create_custom_product_C E reqBody (w, l))) = Some (JStr s) \<and>
            prefix (TEMP_SKU_PREFIX E) s)))"
proof (intro conjI)
  show "(status_of (fst (create_custom_product_A E reqBody (w, l))) = Some 200 \<longrightarrow>
         payload_sku (last (calls (snd (create_custom_product_A E reqBody (w, l))))) =
           Some (JStr (generated_sku E w)) \<and>
         prefix (TEMP_SKU_PREFIX E) (generated_sku E w) \<and>
         response_sku (fst (create_custom_product_A E reqBody (w, l))) =
           reply_sku_AB E (last (calls (snd (create_custom_product_A E reqBody (w, l))))) w \<and>
         (reply_sku_AB E (last (calls (snd (create_custom_product_A E reqBody (w, l))))) w =
            payload_sku (last (calls (snd (create_custom_product_A E reqBody (w, l))))) \<longrightarrow>
          (\<exists>s. response_sku (fst (create_custom_product_A E reqBody (w, l))) = Some (JStr s) \<and>
               prefix (TEMP_SKU_PREFIX E) s)))"
    using created_sku_A_reply [of E reqBody w l] generated_sku_prefix [of E w]
    by auto
  show "(status_of (fst (create_custom_product_B E reqBody (w, l))) = Some 200 \<longrightarrow>
         payload_sku (last (calls (snd (create_custom_product_B E reqBody (w, l))))) =
           Some (JStr (generated_sku E (world_after_upload E reqBody w))) \<and>
         prefix (TEMP_SKU_PREFIX E) (generated_sku E (world_after_upload E reqBody w)) \<and>
         response_sku (fst (create_custom_product_B E reqBody (w, l))) =
           reply_sku_AB E (last (calls (snd (create_custom_product_B E reqBody (w, l)))))
               (world_after_upload E reqBody w) \<and>
         (reply_sku_AB E (last (calls (snd (create_custom_product_B E reqBody (w, l)))))
             (world_after_upload E reqBody w) =
            payload_sku (last (calls (snd (create_custom_product_B E reqBody (w, l))))) \<longrightarrow>
          (\<exists>s. response_sku (fst (create_custom_product_B E reqBody (w, l))) = Some (JStr s) \<and>
               prefix (TEMP_SKU_PREFIX E) s)))"
    using created_sku_B_reply [of E reqBody w l]
      generated_sku_prefix [of E "world_after_upload E reqBody w"]
    by auto
  show "(status_of (fst (create_custom_product_C E reqBody (w, l))) = Some 200 \<longrightarrow>
         payload_sku (last (calls (snd (create_custom_product_C E reqBody (w, l))))) =
           Some (JStr (generated_sku E (world_after_upload E reqBody w))) \<and>
         prefix (TEMP_SKU_PREFIX E) (generated_sku E (world_after_upload E reqBody w)) \<and>
         response_sku (fst (create_custom_product_C E reqBody (w, l))) =
           reply_sku_C E (last (calls (snd (create_custom_product_C E reqBody (w, l)))))
               (world_after_upload E reqBody w) \<and>
         (reply_sku_C E (last (calls (snd (create_custom_product_C E reqBody (w, l)))))
             (world_after_upload E reqBody w) =
            payload_sku (last (calls (snd (create_custom_product_C E reqBody (w, l))))) \<longrightarrow>
          (\<exists>s. response_sku (fst (create_custom_product_C E reqBody (w, l))) = Some (JStr s) \<and>
               prefix (TEMP_SKU_PREFIX E) s)))"
    using created_sku_C_reply [of E reqBody w l]
      generated_sku_prefix [of E "world_after_upload E reqBody w"]
    by auto
qed

lemmas create_defs = createHiddenProductWithImage_A_def createHiddenProductWithImage_B_def
  createHiddenProductWithImage_C_def shopifyRequest_A_def shopifyRequest_B_def shopifyRequest_C_def
  uploadFileToShopify_def post_product_def destructure_body_def bindE_def js_default_def
  js_and_get_def product_payload_def generated_sku_def success_json_A_def success_json_B_def
  success_json_C_def first_variant_def first_image_src_def strip_data_uri_def is_letter_def
  payload_sku_def response_sku.simps reply_product_def reply_sku_AB_def
  reply_sku_C_def world_after_upload_def upload_request_def image_of_def status_of.simps

text \<open>
  The scripted store gives back the SKU \<^verbatim>\<open>CUST-1700000000000\<close>: the one revision A
  submits at the clock 1700000000000, and revisions B and C when their upload, 120 ms
  long, began at 1699999999880.
\<close>

theorem created_sku_starts_with_prefix_witness:
  "status_of (fst (create_custom_product_A example_env jersey_request (1700000000000, [])))
      = Some 200 \<and>
   reply_sku_AB example_env
       (last (calls (snd (create_custom_product_A example_env jersey_request
         (1700000000000, []))))) 1700000000000 =
     payload_sku
         (last (calls (snd (create_custom_product_A example_env jersey_request
           (1700000000000, []))))) \<and>
   (\<exists>s. response_sku (fst (create_custom_product_A example_env jersey_request (1700000000000, [])))
       = Some (JStr s) \<and>
        prefix (TEMP_SKU_PREFIX example_env) s) \<and>
   status_of (fst (create_custom_product_B example_env jersey_request (1699999999880, [])))
       = Some 200 \<and>
   reply_sku_AB example_env
       (last (calls (snd (create_custom_product_B example_env jersey_request (1699999999880, [])))))
       (world_after_upload example_env jersey_request 1699999999880) =
     payload_sku
         (last (calls (snd (create_custom_product_B example_env jersey_request
           (1699999999880, []))))) \<and>
   (\<exists>s. response_sku (fst (create_custom_product_B example_env jersey_request (1699999999880, [])))
       = Some (JStr s) \<and>
        prefix (TEMP_SKU_PREFIX example_env) s) \<and>
   status_of (fst (create_custom_product_C example_env jersey_request (1699999999880, [])))
       = Some 200 \<and>
   reply_sku_C example_env
       (last (calls (snd (create_custom_product_C example_env jersey_request (1699999999880, [])))))
       (world_after_upload example_env jersey_request 1699999999880) =
     payload_sku
         (last (calls (snd (create_custom_product_C example_env jersey_request
           (1699999999880, []))))) \<and>
   (\<exists>s. response_sku (fst (create_custom_product_C example_env jersey_request (1699999999880, [])))
       = Some (JStr s) \<and>
        prefix (TEMP_SKU_PREFIX example_env) s)"
proof -
  have a1: "status_of (fst (create_custom_product_A example_env jersey_request (1700000000000, [])))
      = Some 200"
    by (simp add: create_custom_product_A_def create_defs example_defs run_defs)
  have a2: "reply_sku_AB example_env
      (last (calls (snd (create_custom_product_A example_env jersey_request
        (1700000000000, []))))) 1700000000000 =
     payload_sku
         (last (calls (snd (create_custom_product_A example_env jersey_request
           (1700000000000, [])))))"
    by (simp add: create_custom_product_A_def create_defs example_defs run_defs)
  have a3: "\<exists>s. response_sku (fst (create_custom_product_A example_env jersey_request (1700000000000, [])))
      = Some (JStr s) \<and>
        prefix (TEMP_SKU_PREFIX example_env) s"
    using a1 a2
      created_sku_starts_with_prefix [of example_env jersey_request "1700000000000 :: nat" "[]"]
    by simp
  have b1: "status_of (fst (create_custom_product_B example_env jersey_request (1699999999880, [])))
      = Some 200"
    by (simp add: create_custom_product_B_def create_defs example_defs run_defs)
  have b2: "reply_sku_AB example_env
      (last (calls (snd (create_custom_product_B example_env jersey_request (1699999999880, [])))))
      (world_after_upload example_env jersey_request 1699999999880) =
     payload_sku
         (last (calls (snd (create_custom_product_B example_env jersey_request
           (1699999999880, [])))))"
    by (simp add: create_custom_product_B_def create_defs example_defs run_defs)
  have b3: "\<exists>s. response_sku (fst (create_custom_product_B example_env jersey_request (1699999999880, [])))
      = Some (JStr s) \<and>
        prefix (TEMP_SKU_PREFIX example_env) s"
    using b1 b2
      created_sku_starts_with_prefix [of example_env jersey_request "1699999999880 :: nat" "[]"]
    by simp
  have c1: "status_of (fst (create_custom_product_C example_env jersey_request (1699999999880, [])))
      = Some 200"
    by (simp add: create_custom_product_C_def create_defs example_defs run_defs)
  have c2: "reply_sku_C example_env
      (last (calls (snd (create_custom_product_C example_env jersey_request (1699999999880, [])))))
      (world_after_upload example_env jersey_request 1699999999880) =
     payload_sku
         (last (calls (snd (create_custom_product_C example_env jersey_request
           (1699999999880, [])))))"
    by (simp add: create_custom_product_C_def create_defs example_defs run_defs)
  have c3: "\<exists>s. response_sku (fst (create_custom_product_C example_env jersey_request (1699999999880, [])))
      = Some (JStr s) \<and>
        prefix (TEMP_SKU_PREFIX example_env) s"
    using c1 c2
      created_sku_starts_with_prefix [of example_env jersey_request "1699999999880 :: nat" "[]"]
    by simp
  show ?thesis
    using a1 a2 a3 b1 b2 b3 c1 c2 c3 by (intro conjI)
qed

text \<open>
  The claim as stated fails: on a store that files the new variant under the SKU
  \<^verbatim>\<open>JERSEY-11\<close>, revision A answers the request with success and that SKU, which does
  not start with the configured prefix \<^verbatim>\<open>CUST-\<close>.
\<close>

theorem response_sku_from_upstream:
  "fst (create_custom_product_A renaming_env jersey_request (1700000000000, [])) =
     Responded 200 (Json (JObj
       [(''success'', JBool True), (''productId'', JNum ''7''), (''variantId'', JNum ''11''),
        (''sku'', JStr ''JERSEY-11''), (''image'', JNull),
        (''product'', JObj [(''id'', JNum ''7''), (''variants'', JArr
           [JObj [(''id'', JNum ''11''), (''sku'', JStr ''JERSEY-11'')]])])])) \<and>
   TEMP_SKU_PREFIX renaming_env = ''CUST-'' \<and>
   \<not> prefix (TEMP_SKU_PREFIX renaming_env) ''JERSEY-11''"
  by (simp add: create_custom_product_A_def create_defs example_defs run_defs)

section \<open>The key check of the admin sweep\<close>

lemma sweep_loop_extends:
  assumes "\<And>path m b st. calls (snd (rq path m b st)) = calls st @ [mk_request E path m b]"
  shows "\<exists>ext. calls (snd (sweep_loop rq P ps deleted st)) = calls st @ ext"
proof (induction ps arbitrary: deleted st)
  case Nil
  show ?case by simp
next
  case (Cons p ps)
  show ?case
  proof (cases "shouldDelete P p")
    case (Inl e)
    then show ?thesis by simp
  next
    case (Inr del)
    show ?thesis
    proof (cases "del \<and> (\<exists>pid. get p ''id'' = Inr pid)")
      case False
      then show ?thesis using Inr Cons.IH [of deleted st]
        by (cases "get p ''id''") auto
    next
      case True
      then obtain pid where pid: "get p ''id'' = Inr pid" and del: del by blast
      obtain r st' where d: "deleteProduct rq pid st = (r, st')"
        by (cases "deleteProduct rq pid st")
      have c: "calls st' = calls st @ delete_requests E [pid]"
        using deleteProduct_calls [OF assms, of pid st] d by simp
      obtain ext1 where "calls (snd (sweep_loop rq P ps deleted st')) = calls st' @ ext1"
        using Cons.IH by blast
      moreover obtain ext2 where
        "calls (snd (sweep_loop rq P ps (deleted @ [pid]) st')) = calls st' @ ext2"
        using Cons.IH by blast
      ultimately show ?thesis using Inr pid del d c
        by (cases r) auto
    qed
  qed
qed

text \<open>The sweep starts with the list call.\<close>

lemma admin_sweep_lists_first:
  assumes "\<And>path m b st. calls (snd (rq path m b st)) = calls st @ [mk_request E path m b]"
  shows "\<exists>rest. calls (snd (admin_sweep rq E st)) = calls st @ list_request E # rest"
proof -
  obtain r st' where
    l: "rq ''products.json?limit=250&published_status=unpublished'' GET JNull st = (r, st')"
    by (cases "rq ''products.json?limit=250&published_status=unpublished'' GET JNull st")
  have c: "calls st' = calls st @ [list_request E]"
    using assms [of "''products.json?limit=250&published_status=unpublished''" GET JNull st] l
    by (simp add: list_request_def)
  show ?thesis
  proof (cases r)
    case (Inl e)
    then show ?thesis using l c by (simp add: admin_sweep_def)
  next
    case (Inr listRes)
    show ?thesis
    proof (cases "bindE (get listRes ''products'') (\<lambda>ps. iterate (js_or ps (JArr [])))")
      case (Inl e)
      then show ?thesis using l c Inr by (simp add: admin_sweep_def)
    next
      case r2: (Inr products)
      obtain ext where
        "calls (snd (sweep_loop rq (TEMP_SKU_PREFIX E) products [] st')) = calls st' @ ext"
        using sweep_loop_extends [OF assms] by blast
      then show ?thesis using l c Inr r2
        by (auto simp: admin_sweep_def split: prod.splits sum.splits)
    qed
  qed
qed

lemma admin_key_check:
  assumes "\<And>path m b st. calls (snd (rq path m b st)) = calls st @ [mk_request E path m b]"
  shows "(ADMIN_KEY E = [] \<longrightarrow>
            admin_cleanup_temp_products rq E hdr st = admin_sweep rq E st \<and>
            (\<exists>rest. calls (snd (admin_cleanup_temp_products rq E hdr st)) =
                      calls st @ list_request E # rest)) \<and>
         (ADMIN_KEY E \<noteq> [] \<and> hdr \<noteq> Some (ADMIN_KEY E) \<longrightarrow>
            admin_cleanup_temp_products rq E hdr st =
              (Responded 401 (Json (failure_json ''Unauthorized'')), st))"
  using admin_sweep_lists_first [OF assms, of st]
  by (simp add: admin_cleanup_temp_products_def)

text \<open>
  Claim C9: for every admin cleanup request, when no admin key is configured the request
  is allowed to proceed (the handler runs the sweep, which starts with the list call);
  when an admin key is configured, a request whose \<^verbatim>\<open>x-admin-key\<close> header is missing
  (\<open>hdr = None\<close>) or does not match responds 401 with the message \<^verbatim>\<open>Unauthorized\<close> and
  performs no list or delete call: the world and the list of calls are as before. This
  holds in the three revisions.
\<close>

theorem admin_cleanup_key_check:
  "(ADMIN_KEY E = [] \<longrightarrow>
      admin_cleanup_A E hdr st = admin_sweep (shopifyRequest_A E) E st \<and>
      (\<exists>rest. calls (snd (admin_cleanup_A E hdr st)) = calls st @ list_request E # rest) \<and>
      admin_cleanup_B E hdr st = admin_sweep (shopifyRequest_B E) E st \<and>
      (\<exists>rest. calls (snd (admin_cleanup_B E hdr st)) = calls st @ list_request E # rest) \<and>
      admin_cleanup_C E hdr st = admin_sweep (shopifyRequest_C E) E st \<and>
      (\<exists>rest. calls (snd (admin_cleanup_C E hdr st)) = calls st @ list_request E # rest)) \<and>
   (ADMIN_KEY E \<noteq> [] \<and> hdr \<noteq> Some (ADMIN_KEY E) \<longrightarrow>
      admin_cleanup_A E hdr st = (Responded 401 (Json (failure_json ''Unauthorized'')), st) \<and>
      admin_cleanup_B E hdr st = (Responded 401 (Json (failure_json ''Unauthorized'')), st) \<and>
      admin_cleanup_C E hdr st = (Responded 401 (Json (failure_json ''Unauthorized'')), st))"
  unfolding admin_cleanup_A_def admin_cleanup_B_def admin_cleanup_C_def
  using admin_key_check [OF shopifyRequest_A_calls, of E hdr st]
    admin_key_check [OF shopifyRequest_B_calls, of E hdr st]
    admin_key_check [OF shopifyRequest_C_calls, of E hdr st]
  by blast

theorem admin_cleanup_key_check_witness:
  "ADMIN_KEY example_env = [] \<and>
   (\<exists>rest. calls (snd (admin_cleanup_A example_env None (1700000300000, []))) =
             calls (1700000300000 :: nat, []) @ list_request example_env # rest) \<and>
   ADMIN_KEY keyed_env \<noteq> [] \<and> None \<noteq> Some (ADMIN_KEY keyed_env) \<and>
   admin_cleanup_A keyed_env None (1700000300000, []) =
     (Responded 401 (Json (failure_json ''Unauthorized'')), (1700000300000, [])) \<and>
   Some ''guess'' \<noteq> Some (ADMIN_KEY keyed_env) \<and>
   admin_cleanup_B keyed_env (Some ''guess'') (1700000300000, []) =
     (Responded 401 (Json (failure_json ''Unauthorized'')), (1700000300000, []))"
proof -
  have open_key: "ADMIN_KEY example_env = []" by (simp add: example_env_def)
  have key: "ADMIN_KEY keyed_env \<noteq> []" by (simp add: keyed_env_def example_env_def)
  have missing: "None \<noteq> Some (ADMIN_KEY keyed_env)" by simp
  have wrong: "Some ''guess'' \<noteq> Some (ADMIN_KEY keyed_env)"
    by (simp add: keyed_env_def example_env_def)
  have lists: "\<exists>rest. calls (snd (admin_cleanup_A example_env None (1700000300000, []))) =
                        calls (1700000300000 :: nat, []) @ list_request example_env # rest"
    using open_key admin_cleanup_key_check [of example_env None "(1700000300000, [])"] by blast
  have r1: "admin_cleanup_A keyed_env None (1700000300000, []) =
              (Responded 401 (Json (failure_json ''Unauthorized'')), (1700000300000, []))"
    using key missing admin_cleanup_key_check [of keyed_env None "(1700000300000, [])"] by blast
  have r2: "admin_cleanup_B keyed_env (Some ''guess'') (1700000300000, []) =
              (Responded 401 (Json (failure_json ''Unauthorized'')), (1700000300000, []))"
    using key wrong admin_cleanup_key_check [of keyed_env "Some ''guess''" "(1700000300000, [])"]
    by blast
  show ?thesis
    using open_key key missing wrong lists r1 r2 by blast
qed

end
